theory Spec2Isabelle
  imports Complex_Main "HOL-Library.Word" "HOL-Library.Sublist" "HOL-Library.Multiset"
begin

unbundle bit_operations_syntax

section \<open>JavaScript strings\<close>

text \<open>
  A JavaScript string is a sequence of UTF-16 code units; a byte of a \<^verbatim>\<open>Uint8Array\<close> is an
  8-bit word. \<open>js\<close> writes an ASCII literal as such a string; every other literal of the
  source is given by its code units.
\<close>

type_synonym code_unit = "16 word"
type_synonym jstring = "code_unit list"
type_synonym byte = "8 word"

definition js :: "string \<Rightarrow> jstring" where
  "js s = map (\<lambda>c. of_char c) s"

text \<open>
  \<^verbatim>\<open>String.prototype.trim\<close> removes the code points of WhiteSpace and LineTerminator
  (ECMA-262, TrimString) from both ends.
\<close>

definition is_white_space :: "code_unit \<Rightarrow> bool" where
  "is_white_space c \<longleftrightarrow>
     c = 0x0009 \<or> c = 0x000A \<or> c = 0x000B \<or> c = 0x000C \<or> c = 0x000D \<or> c = 0x0020 \<or>
     c = 0x00A0 \<or> c = 0x1680 \<or> (0x2000 \<le> c \<and> c \<le> 0x200A) \<or> c = 0x2028 \<or> c = 0x2029 \<or>
     c = 0x202F \<or> c = 0x205F \<or> c = 0x3000 \<or> c = 0xFEFF"

definition trim :: "jstring \<Rightarrow> jstring" where
  "trim s = rev (dropWhile is_white_space (rev (dropWhile is_white_space s)))"

text \<open>\<^verbatim>\<open>trimEnd\<close>, the right half of \<^verbatim>\<open>trim\<close>.\<close>

definition trim_end :: "jstring \<Rightarrow> jstring" where
  "trim_end s = rev (dropWhile is_white_space (rev s))"

text \<open>
  \<^verbatim>\<open>s.split(sep)\<close> for a non-empty string separator: scan from the left, cut at each
  leftmost occurrence of the separator and continue behind it; the text after the last
  occurrence is the last element, so the result is never empty. \<open>acc\<close> is the text since
  the last cut.
\<close>

function split_from :: "'a list \<Rightarrow> 'a list \<Rightarrow> 'a list \<Rightarrow> 'a list list" where
  "split_from sep acc s =
     (if s = [] then [acc]
      else if sep \<noteq> [] \<and> prefix sep s then acc # split_from sep [] (drop (length sep) s)
      else split_from sep (acc @ [hd s]) (tl s))"
  by pat_completeness auto
termination
  by (relation "measure (\<lambda>(sep, acc, s). length s)") auto

declare split_from.simps [simp del]

definition split :: "jstring \<Rightarrow> jstring \<Rightarrow> jstring list" where
  "split s sep = split_from sep [] s"

text \<open>\<^verbatim>\<open>xs.join(sep)\<close> on an array of strings.\<close>

fun join :: "jstring list \<Rightarrow> jstring \<Rightarrow> jstring" where
  "join [] sep = []"
| "join [x] sep = x"
| "join (x # y # ys) sep = x @ sep @ join (y # ys) sep"

text \<open>\<^verbatim>\<open>s.includes(t)\<close>: \<open>t\<close> occurs in \<open>s\<close> as a contiguous run.\<close>

fun js_includes :: "jstring \<Rightarrow> jstring \<Rightarrow> bool" where
  "js_includes [] t = (t = [])"
| "js_includes (c # s) t = (prefix t (c # s) \<or> js_includes s t)"

text \<open>
  The decimal digits of a non-negative integer: what a template literal writes for a
  number that is an integer below \<open>2\<^sup>5\<^sup>3\<close>. An HTTP status is such a number.
\<close>

function show_nat :: "nat \<Rightarrow> jstring" where
  "show_nat n =
     (if n < 10 then [of_nat (48 + n)] else show_nat (n div 10) @ [of_nat (48 + n mod 10)])"
  by pat_completeness auto
termination
  by (relation "measure (\<lambda>n. n)") auto

declare show_nat.simps [simp del]

section \<open>HeaderSanitizer\<close>

text \<open>
  \<^verbatim>\<open>isHeaderSafe(str) { return /^[\x00-\x7F]*$/.test(str); }\<close>
  The pattern is anchored at both ends and has no flags: it matches when the run of code
  units of the class \<open>[\x00-\x7F]\<close> that starts at index 0 reaches the end of the input.
\<close>

definition isHeaderSafe :: "jstring \<Rightarrow> bool" where
  "isHeaderSafe str \<longleftrightarrow> dropWhile (\<lambda>c. c \<le> 0x7F) str = []"

section \<open>MessageSplitter\<close>

text \<open>
  The tail of \<^verbatim>\<open>handleReceive\<close>, once the stream has been aggregated into
  \<^verbatim>\<open>fullResponse\<close>:
  \<^verbatim>\<open>
  const msgs = fullResponse.split('---MSG_BREAK---').filter(m => m.trim());
  if (msgs.length > 0) {
    msgs.forEach(m => onSendMessage(m.trim(), 'model'));
  } else if (fullResponse.trim()) {
    onSendMessage(fullResponse.trim(), 'model');
  }
  \<close>
  The result is the list of texts handed to \<^verbatim>\<open>onSendMessage\<close>, in call order.
\<close>

definition MSG_BREAK :: jstring where
  "MSG_BREAK = js ''---MSG_BREAK---''"

definition handleReceive_messages :: "jstring \<Rightarrow> jstring list" where
  "handleReceive_messages fullResponse =
     (let msgs = filter (\<lambda>m. trim m \<noteq> []) (split fullResponse MSG_BREAK) in
      if length msgs > 0 then map trim msgs
      else if trim fullResponse \<noteq> [] then [trim fullResponse]
      else [])"

text \<open>
  The splitter in the words of the specification: split on the sentinel, trim each segment,
  drop the segments that are empty after trimming; if nothing is left but the trimmed
  whole input is non-empty, the result is that trimmed input alone.
\<close>

definition split_spec :: "jstring \<Rightarrow> jstring list" where
  "split_spec fullText =
     (let segments = filter (\<lambda>s. s \<noteq> []) (map trim (split fullText MSG_BREAK)) in
      if segments = [] \<and> trim fullText \<noteq> [] then [trim fullText] else segments)"

section \<open>JSON values and the property reads of the program\<close>

text \<open>
  The values \<^verbatim>\<open>JSON.parse\<close> and \<^verbatim>\<open>response.json()\<close> produce. A number is the
  mathematical value of the double; an object is the list of its own properties, each
  key once. \<^verbatim>\<open>undefined\<close> is \<open>None\<close> of \<open>json option\<close>.
\<close>

datatype js_number = Finite rat | PosInfinity | NegInfinity | NaN

datatype json =
    JNull
  | JBool bool
  | JNum js_number
  | JStr jstring
  | JArr "json list"
  | JObj "(jstring \<times> json) list"

text \<open>
  What a \<^verbatim>\<open>throw\<close> or a rejected promise carries: \<open>Error v\<close> is \<^verbatim>\<open>new Error(v)\<close>
  (its message is \<open>v\<close> converted to a string, \<open>v\<close> itself when \<open>v\<close> is a string);
  \<open>TypeError\<close> is raised by the engine on a property read of \<^verbatim>\<open>null\<close> or
  \<^verbatim>\<open>undefined\<close> and on a call of a non-function; \<open>Thrown\<close> is a failure of the
  environment (network, vendor SDK, body reader).
\<close>

datatype js_error = Error json | TypeError | Thrown jstring

text \<open>Truthiness (ToBoolean) of a value.\<close>

fun truthy :: "json \<Rightarrow> bool" where
  "truthy JNull = False"
| "truthy (JBool b) = b"
| "truthy (JNum n) = (n \<noteq> Finite 0 \<and> n \<noteq> NaN)"
| "truthy (JStr s) = (s \<noteq> [])"
| "truthy (JArr xs) = True"
| "truthy (JObj kvs) = True"

text \<open>
  \<open>member v name\<close> is the read \<^verbatim>\<open>v.name\<close> on a value other than \<^verbatim>\<open>null\<close>, for the
  names this program reads (\<^verbatim>\<open>choices\<close>, \<^verbatim>\<open>delta\<close>, \<^verbatim>\<open>content\<close>, \<^verbatim>\<open>message\<close>,
  \<^verbatim>\<open>error\<close>): an own property of an object, \<^verbatim>\<open>undefined\<close> on every other value, since
  no prototype defines these names. \<open>first v\<close> is the read \<^verbatim>\<open>v[0]\<close>: the first element
  of an array, the first code unit of a string, the property \<^verbatim>\<open>"0"\<close> of an object.
\<close>

fun member :: "json \<Rightarrow> jstring \<Rightarrow> json option" where
  "member (JObj kvs) name = map_of kvs name"
| "member v name = None"

fun first :: "json \<Rightarrow> json option" where
  "first (JArr xs) = (case xs of [] \<Rightarrow> None | x # _ \<Rightarrow> Some x)"
| "first (JStr s) = (case s of [] \<Rightarrow> None | c # _ \<Rightarrow> Some (JStr [c]))"
| "first (JObj kvs) = map_of kvs (js ''0'')"
| "first v = None"

text \<open>Optional chaining \<^verbatim>\<open>x?.name\<close>: \<^verbatim>\<open>undefined\<close> when \<open>x\<close> is \<^verbatim>\<open>undefined\<close> or \<^verbatim>\<open>null\<close>.\<close>

definition opt_member :: "json option \<Rightarrow> jstring \<Rightarrow> json option" where
  "opt_member x name =
     (case x of None \<Rightarrow> None | Some JNull \<Rightarrow> None | Some v \<Rightarrow> member v name)"

text \<open>
  \<^verbatim>\<open>data.choices[0]\<close>: the read of \<^verbatim>\<open>choices\<close> throws on \<^verbatim>\<open>null\<close>, the read of \<^verbatim>\<open>[0]\<close>
  throws when \<^verbatim>\<open>data.choices\<close> is \<^verbatim>\<open>undefined\<close> or \<^verbatim>\<open>null\<close>.
\<close>

definition first_choice :: "json \<Rightarrow> js_error + json option" where
  "first_choice data =
     (case data of
        JNull \<Rightarrow> Inl TypeError
      | _ \<Rightarrow> (case member data (js ''choices'') of
                None \<Rightarrow> Inl TypeError
              | Some JNull \<Rightarrow> Inl TypeError
              | Some choices \<Rightarrow> Inr (first choices)))"

section \<open>TextDecoder\<close>

text \<open>
  \<^verbatim>\<open>new TextDecoder()\<close> with \<^verbatim>\<open>decode(value, { stream: true })\<close>, after the WHATWG
  Encoding Standard: the UTF-8 decoder's handler, run on each byte of the chunk with
  its state kept between calls, errors replaced by U+FFFD, and the output serialised
  with one leading U+FEFF dropped. With \<^verbatim>\<open>stream: true\<close> the end of a chunk is not the end
  of the queue, so an incomplete sequence stays pending in the decoder.
\<close>

record utf8_decoder =
  code_point :: nat
  bytes_seen :: nat
  bytes_needed :: nat
  lower_boundary :: byte
  upper_boundary :: byte

record TextDecoder =
  decoder :: utf8_decoder
  BOM_seen :: bool

definition new_utf8_decoder :: utf8_decoder where
  "new_utf8_decoder =
     \<lparr>code_point = 0, bytes_seen = 0, bytes_needed = 0,
      lower_boundary = 0x80, upper_boundary = 0xBF\<rparr>"

definition new_TextDecoder :: TextDecoder where
  "new_TextDecoder = \<lparr>decoder = new_utf8_decoder, BOM_seen = False\<rparr>"

text \<open>The handler when no bytes are needed (step 3 of the standard's handler).\<close>

definition lead_byte :: "utf8_decoder \<Rightarrow> byte \<Rightarrow> utf8_decoder \<times> nat list" where
  "lead_byte d b =
     (if b \<le> 0x7F then (d, [unat b])
      else if 0xC2 \<le> b \<and> b \<le> 0xDF then
        (d\<lparr>bytes_needed := 1, code_point := unat (b AND 0x1F)\<rparr>, [])
      else if 0xE0 \<le> b \<and> b \<le> 0xEF then
        (d\<lparr>lower_boundary := (if b = 0xE0 then 0xA0 else lower_boundary d),
           upper_boundary := (if b = 0xED then 0x9F else upper_boundary d),
           bytes_needed := 2, code_point := unat (b AND 0xF)\<rparr>, [])
      else if 0xF0 \<le> b \<and> b \<le> 0xF4 then
        (d\<lparr>lower_boundary := (if b = 0xF0 then 0x90 else lower_boundary d),
           upper_boundary := (if b = 0xF4 then 0x8F else upper_boundary d),
           bytes_needed := 3, code_point := unat (b AND 0x7)\<rparr>, [])
      else (d, [0xFFFD]))"

text \<open>
  One byte through the handler. A byte outside the expected range resets the decoder,
  emits U+FFFD and is read again, now with no bytes needed.
\<close>

definition utf8_handler :: "utf8_decoder \<Rightarrow> byte \<Rightarrow> utf8_decoder \<times> nat list" where
  "utf8_handler d b =
     (if bytes_needed d = 0 then lead_byte d b
      else if \<not> (lower_boundary d \<le> b \<and> b \<le> upper_boundary d) then
        (let (d', out) = lead_byte new_utf8_decoder b in (d', 0xFFFD # out))
      else
        (let cp = push_bit 6 (code_point d) OR unat (b AND 0x3F);
             d1 = d\<lparr>lower_boundary := 0x80, upper_boundary := 0xBF, code_point := cp,
                    bytes_seen := bytes_seen d + 1\<rparr>
         in if bytes_seen d1 \<noteq> bytes_needed d1 then (d1, [])
            else (d1\<lparr>code_point := 0, bytes_needed := 0, bytes_seen := 0\<rparr>, [cp])))"

fun run_decoder :: "utf8_decoder \<Rightarrow> byte list \<Rightarrow> utf8_decoder \<times> nat list" where
  "run_decoder d [] = (d, [])"
| "run_decoder d (b # bs) =
     (let (d1, out1) = utf8_handler d b; (d2, out2) = run_decoder d1 bs in (d2, out1 @ out2))"

text \<open>A scalar value as UTF-16 code units.\<close>

definition utf16 :: "nat \<Rightarrow> jstring" where
  "utf16 cp =
     (if cp < 0x10000 then [of_nat cp]
      else [of_nat (0xD800 + (cp - 0x10000) div 0x400),
            of_nat (0xDC00 + (cp - 0x10000) mod 0x400)])"

text \<open>Serialising the output queue: the first scalar value is dropped when it is U+FEFF.\<close>

fun serialize :: "bool \<Rightarrow> nat list \<Rightarrow> bool \<times> jstring" where
  "serialize seen [] = (seen, [])"
| "serialize seen (cp # cps) =
     (if \<not> seen \<and> cp = 0xFEFF then serialize True cps
      else (let (seen', text) = serialize True cps in (seen', utf16 cp @ text)))"

definition decode :: "TextDecoder \<Rightarrow> byte list \<Rightarrow> TextDecoder \<times> jstring" where
  "decode td input =
     (let (d, out) = run_decoder (decoder td) input;
          (seen, text) = serialize (BOM_seen td) out
      in (\<lparr>decoder = d, BOM_seen = seen\<rparr>, text))"

section \<open>GenericStreamClient: the stream parser of sendMessageStream\<close>

text \<open>
  \<^verbatim>\<open>JSON.parse\<close> is a parameter of the model: \<open>None\<close> is the SyntaxError it throws.
  One complete line:
  \<^verbatim>\<open>
  const cleanedLine = line.replace(/^data: /, '').trim();
  if (cleanedLine === '' || cleanedLine === '[DONE]') continue;
  try {
    const parsed = JSON.parse(cleanedLine);
    const content = parsed.choices[0]?.delta?.content;
    if (content) yield content;
  } catch (e) { }
  \<close>
  The result is the list of the values the line yields (none or one).
\<close>

definition replace_data_prefix :: "jstring \<Rightarrow> jstring" where
  "replace_data_prefix line =
     (if prefix (js ''data: '') line then drop (length (js ''data: '')) line else line)"

definition delta_content :: "json \<Rightarrow> js_error + json option" where
  "delta_content parsed =
     (case first_choice parsed of
        Inl e \<Rightarrow> Inl e
      | Inr choice \<Rightarrow> Inr (opt_member (opt_member choice (js ''delta'')) (js ''content'')))"

definition process_line :: "(jstring \<Rightarrow> json option) \<Rightarrow> jstring \<Rightarrow> json list" where
  "process_line JSON_parse line =
     (let cleanedLine = trim (replace_data_prefix line) in
      if cleanedLine = [] \<or> cleanedLine = js ''[DONE]'' then []
      else (case JSON_parse cleanedLine of
              None \<Rightarrow> []
            | Some parsed \<Rightarrow>
                (case delta_content parsed of
                   Inl e \<Rightarrow> []
                 | Inr None \<Rightarrow> []
                 | Inr (Some content) \<Rightarrow> if truthy content then [content] else [])))"

text \<open>The complete lines of a text: those that end in a line feed.\<close>

definition complete_lines :: "jstring \<Rightarrow> jstring list" where
  "complete_lines text = butlast (split text [0x0A])"

text \<open>
  The read loop. \<open>chunks\<close> are the values \<^verbatim>\<open>reader.read()\<close> delivers before it reports
  \<^verbatim>\<open>done\<close>; \<open>failure\<close> is the error of a read that rejects after them, if any. The result
  is the values yielded and how the loop ends (\<open>None\<close>: it returns).
  \<^verbatim>\<open>
  let buffer = '';
  while (true) {
    const { done, value } = await reader.read();
    if (done) break;
    buffer += decoder.decode(value, { stream: true });
    const lines = buffer.split('\n');
    buffer = lines.pop() || '';
    for (const line of lines) { ... }
  }
  \<close>
\<close>

fun read_loop ::
  "(jstring \<Rightarrow> json option) \<Rightarrow> TextDecoder \<Rightarrow> jstring \<Rightarrow> byte list list \<Rightarrow> js_error option
     \<Rightarrow> json list \<times> js_error option" where
  "read_loop JSON_parse td buffer [] failure = ([], failure)"
| "read_loop JSON_parse td buffer (val # rest) failure =
     (let (td', text) = decode td val;
          buffer1 = buffer @ text;
          lines = split buffer1 [0x0A];
          buffer2 = (if lines = [] then [] else last lines);
          lines' = butlast lines;
          (deltas, ending) = read_loop JSON_parse td' buffer2 rest failure
      in (concat (map (process_line JSON_parse) lines') @ deltas, ending))"

text \<open>
  The body reader of one response, from \<^verbatim>\<open>response.body?.getReader()\<close> on:
  \<^verbatim>\<open>
  const reader = response.body?.getReader();
  const decoder = new TextDecoder();
  if (!reader) return;
  \<close>
\<close>

record body_stream =
  chunks :: "byte list list"
  failure :: "js_error option"

definition parse_stream ::
  "(jstring \<Rightarrow> json option) \<Rightarrow> body_stream option \<Rightarrow> json list \<times> js_error option" where
  "parse_stream JSON_parse body =
     (case body of
        None \<Rightarrow> ([], None)
      | Some reader \<Rightarrow> read_loop JSON_parse new_TextDecoder [] (chunks reader) (failure reader))"

section \<open>Configuration and session state\<close>

text \<open>
  \<^verbatim>\<open>WorldEntry\<close> and \<^verbatim>\<open>ChatConfig\<close> as declared. \<^verbatim>\<open>injectionPosition\<close> is optional and,
  at run time, any string; a language code is any string as well, since both
  \<^verbatim>\<open>switch\<close> statements have a default branch. The counts come from digit-only inputs.
\<close>

record WorldEntry =
  entry_id :: jstring
  title :: jstring
  content :: jstring
  category :: jstring
  injectionPosition :: "jstring option"

datatype RegionTimezone = Asia_Shanghai | Asia_Tokyo | Asia_Seoul | America_New_York

record ChatConfig =
  userName :: jstring
  aiPersona :: jstring
  userPersona :: jstring
  worldEntries :: "WorldEntry list"
  modelName :: jstring
  apiKey :: jstring
  apiUrl :: jstring
  temperature :: js_number
  language :: jstring
  timeAwareness :: bool
  userTimezone :: RegionTimezone
  aiTimezone :: RegionTimezone
  minResponseCount :: nat
  maxResponseCount :: nat
  maxCharacterCount :: nat

text \<open>
  The vendor SDK is opaque: a client is what \<^verbatim>\<open>new GoogleGenAI({ apiKey })\<close> was given, a
  chat session what \<^verbatim>\<open>ai.chats.create\<close> was given.
\<close>

record GoogleGenAI =
  client_apiKey :: jstring

record Chat =
  chat_client :: GoogleGenAI
  chat_model :: jstring
  chat_systemInstruction :: jstring
  chat_temperature :: js_number

record AIService =
  ai :: "GoogleGenAI option"
  chat :: "Chat option"
  currentBaseUrl :: jstring
  currentApiKey :: jstring
  currentModel :: jstring
  currentTemperature :: js_number
  currentSystemInstruction :: jstring

definition new_AIService :: AIService where
  "new_AIService =
     \<lparr>ai = None, chat = None, currentBaseUrl = [], currentApiKey = [], currentModel = [],
      currentTemperature = Finite 1, currentSystemInstruction = []\<rparr>"

section \<open>PromptBuilder\<close>

text \<open>
  What the prompt takes from the JavaScript runtime. \<open>format_time\<close> is the clock: the text
  \<^verbatim>\<open>new Intl.DateTimeFormat('zh-CN', { hour: '2-digit', minute: '2-digit', timeZone, hour12: false }).format(now)\<close>
  gives for a time zone at the instant of the call. \<open>large_number_text\<close> is what a
  template literal writes for a count from \<open>2\<^sup>5\<^sup>3\<close> on, where a number is written with
  the shortest digits that identify the double and, from \<open>10\<^sup>2\<^sup>1\<close> on, in exponent form.
  The counts are the values of numbers that \<^verbatim>\<open>parseInt\<close> reads from digit-only inputs.
\<close>

record runtime =
  format_time :: "RegionTimezone \<Rightarrow> jstring"
  large_number_text :: "nat \<Rightarrow> jstring"

definition number_text :: "runtime \<Rightarrow> nat \<Rightarrow> jstring" where
  "number_text rt n = (if n < 2 ^ 53 then show_nat n else large_number_text rt n)"

subsection \<open>The literals of the source\<close>

definition lang_prompt_ja :: jstring where
  "lang_prompt_ja =
     js ''### '' @
     [0x6838, 0x5FC3, 0x6307, 0x4EE4, 0xFF1A, 0x5F3A, 0x5236, 0x8BED, 0x8A00, 0x73AF, 0x5883,
      0x000A, 0x4F60, 0x73B0, 0x5728, 0x5FC5, 0x987B, 0x4E14, 0x53EA, 0x80FD, 0x4F7F, 0x7528,
      0x201C, 0x65E5, 0x8BED, 0xFF08, 0x65E5, 0x672C, 0x8A9E, 0xFF09, 0x201D, 0x8FDB, 0x884C,
      0x6240, 0x6709, 0x56DE, 0x590D, 0x3002]"

definition lang_prompt_en :: jstring where
  "lang_prompt_en =
     js ''### CORE INSTRUCTION: MANDATORY LANGUAGE'' @ [0x000A] @
     js ''You MUST respond exclusively in English.''"

definition lang_prompt_ko :: jstring where
  "lang_prompt_ko =
     js ''### '' @ [0xD575, 0xC2EC] @ js '' '' @ [0xC9C0, 0xCE68] @ js '': '' @
     [0xD544, 0xC218] @ js '' '' @ [0xC5B8, 0xC5B4] @ js '' '' @
     [0xC124, 0xC815, 0x000A, 0xB2F9, 0xC2E0, 0xC740] @ js '' '' @
     [0xC774, 0xC81C, 0xBD80, 0xD130] @ js '' '' @ [0xC624, 0xC9C1] @ js '' '' @
     [0x201C, 0xD55C, 0xAD6D, 0xC5B4, 0x201D, 0xB85C, 0xB9CC] @ js '' '' @
     [0xB2F5, 0xBCC0, 0xD574, 0xC57C] @ js '' '' @ [0xD569, 0xB2C8, 0xB2E4] @ js ''.''"

definition lang_prompt_zh :: jstring where
  "lang_prompt_zh =
     js ''### '' @
     [0x6838, 0x5FC3, 0x6307, 0x4EE4, 0xFF1A, 0x5F3A, 0x5236, 0x8BED, 0x8A00, 0x73AF, 0x5883,
      0x000A, 0x4F60, 0x5FC5, 0x987B, 0x4E14, 0x53EA, 0x80FD, 0x4F7F, 0x7528, 0x201C, 0x4E2D,
      0x6587, 0xFF08, 0x7B80, 0x4F53, 0x4E2D, 0x6587, 0xFF09, 0x201D, 0x8FDB, 0x884C, 0x56DE,
      0x590D, 0x3002]"

definition lang_name_zh :: jstring where
  "lang_name_zh =
     [0x4E2D, 0x6587, 0xFF08, 0x7B80, 0x4F53, 0xFF09]"

definition lang_name_ja :: jstring where
  "lang_name_ja =
     [0x65E5, 0x8BED, 0xFF08, 0x65E5, 0x672C, 0x8A9E, 0xFF09]"

definition lang_name_en :: jstring where
  "lang_name_en =
     [0x82F1, 0x8BED, 0xFF08] @ js ''English'' @ [0xFF09]"

definition lang_name_ko :: jstring where
  "lang_name_ko =
     [0x97E9, 0x8BED, 0xFF08, 0xD55C, 0xAD6D, 0xC5B4, 0xFF09]"

definition entry_open :: jstring where
  "entry_open =
     [0x3010]"

definition entry_sep :: jstring where
  "entry_sep =
     [0x3011] @ js '': ''"

definition world_header :: jstring where
  "world_header =
     js ''['' @ [0x4E16, 0x754C, 0x8BBE, 0x5B9A] @ js ''/'' @ [0x80CC, 0x666F, 0x77E5, 0x8BC6] @
     js '']''"

definition time_context_1 :: jstring where
  "time_context_1 =
     [0x000A] @ js ''['' @ [0x65F6, 0x7A7A, 0x6821, 0x51C6] @ js ''] '' @
     [0x5F53, 0x524D, 0x4F60, 0x7684, 0x672C, 0x5730, 0x65F6, 0x95F4, 0x662F] @ js '' ''"

definition time_context_2 :: jstring where
  "time_context_2 =
     [0xFF0C, 0x5BF9, 0x65B9, 0x7684, 0x65F6, 0x95F4, 0x662F] @ js '' ''"

definition time_context_3 :: jstring where
  "time_context_3 =
     [0x3002]"

definition output_control_1 :: jstring where
  "output_control_1 =
     [0x000A] @ js ''### '' @ [0x8F93, 0x51FA, 0x683C, 0x5F0F, 0x89C4, 0x8303, 0x000A] @
     js ''1. **'' @ [0x591A, 0x6D88, 0x606F, 0x62C6, 0x5206] @ js ''**'' @
     [0xFF1A, 0x8BF7, 0x5C06, 0x672C, 0x6B21, 0x56DE, 0x590D, 0x62C6, 0x5206, 0x4E3A] @
     js '' ''"

definition output_control_2 :: jstring where
  "output_control_2 =
     js '' '' @ [0x5230] @ js '' ''"

definition output_control_3 :: jstring where
  "output_control_3 =
     js '' '' @
     [0x6761, 0x72EC, 0x7ACB, 0x7684, 0x6D88, 0x606F, 0x53D1, 0x9001, 0x3002, 0x000A] @
     js ''2. **'' @ [0x6D88, 0x606F, 0x5206, 0x9694, 0x7B26] @ js ''**'' @
     [0xFF1A, 0x4E0D, 0x540C, 0x6D88, 0x606F, 0x4E4B, 0x95F4, 0x5FC5, 0x987B, 0x4E14, 0x53EA,
      0x80FD, 0x4F7F, 0x7528] @
     js '' '' @ [0x0022] @ js ''---MSG_BREAK---'' @ [0x0022] @ js '' '' @
     [0x4F5C, 0x4E3A, 0x552F, 0x4E00, 0x7684, 0x5206, 0x9694, 0x6807, 0x8BC6, 0x3002, 0x000A] @
     js ''3. **'' @ [0x5B57, 0x6570, 0x9650, 0x5236] @ js ''**'' @
     [0xFF1A, 0x6BCF, 0x6761, 0x6D88, 0x606F, 0x7684, 0x5185, 0x5BB9, 0x4E0D, 0x5F97, 0x8D85,
      0x8FC7] @
     js '' ''"

definition output_control_4 :: jstring where
  "output_control_4 =
     js '' '' @ [0x4E2A, 0x5B57, 0x7B26, 0x3002, 0x000A]"

definition instruction_1 :: jstring where
  "instruction_1 =
     [0x000A] @ js ''# '' @
     [0x6267, 0x884C, 0x534F, 0x8BAE, 0xFF1A, 0x7CBE, 0x51C6, 0x89D2, 0x8272, 0x626E, 0x6F14,
      0x000A, 0x000A] @
     js ''## 1. '' @ [0x6838, 0x5FC3, 0x4EBA, 0x8BBE] @ js '' (Core Persona)'' @ [0x000A]"

definition instruction_2 :: jstring where
  "instruction_2 =
     [0x000A, 0x000A] @ js ''## 2. '' @ [0x4EA4, 0x4E92, 0x5BF9, 0x8C61] @
     js '' (User Context)'' @ [0x000A] @ js ''- '' @ [0x5BF9, 0x65B9, 0x6635, 0x79F0, 0xFF1A]"

definition instruction_3 :: jstring where
  "instruction_3 =
     [0x000A] @ js ''- '' @ [0x5BF9, 0x65B9, 0x8BBE, 0x5B9A, 0xFF1A]"

definition instruction_4 :: jstring where
  "instruction_4 =
     [0x000A, 0x000A] @ js ''## 3. '' @ [0x80CC, 0x666F, 0x4E0E, 0x4E0A, 0x4E0B, 0x6587] @
     js '' (World & Context)'' @ [0x000A]"

definition instruction_5 :: jstring where
  "instruction_5 =
     [0x000A]"

definition instruction_6 :: jstring where
  "instruction_6 =
     [0x000A, 0x000A] @ js ''## 4. '' @
     [0x8BED, 0x8A00, 0x4E0E, 0x683C, 0x5F0F, 0x8981, 0x6C42, 0x000A]"

definition instruction_7 :: jstring where
  "instruction_7 =
     [0x000A]"

definition instruction_8 :: jstring where
  "instruction_8 =
     [0x000A, 0x000A] @ js ''---'' @ [0x000A] @ js ''### '' @
     [0x5F00, 0x53D1, 0x8005, 0x58F0, 0x660E, 0x000A, 0x8BF7, 0x5B8C, 0x5168, 0x5FFD, 0x7565,
      0x4EFB, 0x4F55, 0x9ED8, 0x8BA4, 0x6027] @
     js '' AI '' @
     [0x52A9, 0x624B, 0x8BDD, 0x672F, 0x3002, 0x4F60, 0x7684, 0x6240, 0x6709, 0x56DE, 0x590D,
      0x5FC5, 0x987B, 0x4E25, 0x683C, 0x57FA, 0x4E8E, 0x4E0A, 0x8FF0, 0x3010, 0x6838, 0x5FC3,
      0x4EBA, 0x8BBE, 0x3011, 0x8FDB, 0x884C, 0x8868, 0x8FBE, 0x3002, 0x000A]"

definition default_ai_persona :: jstring where
  "default_ai_persona =
     [0x4E00, 0x4E2A, 0x6B63, 0x5728, 0x4E0E, 0x4EBA, 0x4EA4, 0x6D41, 0x7684, 0x5BF9, 0x8C61, 0x3002]"

definition default_user_persona :: jstring where
  "default_user_persona =
     [0x666E, 0x901A, 0x5BF9, 0x8BDD, 0x8005, 0x3002]"

subsection \<open>constructSystemInstruction\<close>

definition getLanguagePrompt :: "jstring \<Rightarrow> jstring" where
  "getLanguagePrompt lang =
     (if lang = js ''ja'' then lang_prompt_ja
      else if lang = js ''en'' then lang_prompt_en
      else if lang = js ''ko'' then lang_prompt_ko
      else lang_prompt_zh)"

definition getLanguageName :: "jstring \<Rightarrow> jstring" where
  "getLanguageName lang =
     (if lang = js ''zh'' then lang_name_zh
      else if lang = js ''ja'' then lang_name_ja
      else if lang = js ''en'' then lang_name_en
      else if lang = js ''ko'' then lang_name_ko
      else lang_name_zh)"

text \<open>
  \<^verbatim>\<open>
  const formatEntries = (entries) => entries.map(e => `[title]: content`).join('\n');
  const front = worldEntries.filter(e => e.injectionPosition === 'front');
  const middle = worldEntries.filter(e => !e.injectionPosition || e.injectionPosition === 'middle');
  const back = worldEntries.filter(e => e.injectionPosition === 'back');
  \<close>
  (the brackets of the line are U+3010 and U+3011). \<^verbatim>\<open>!e.injectionPosition\<close> holds of
  \<^verbatim>\<open>undefined\<close> and of the empty string.
\<close>

definition formatEntry :: "WorldEntry \<Rightarrow> jstring" where
  "formatEntry e = entry_open @ title e @ entry_sep @ content e"

definition formatEntries :: "WorldEntry list \<Rightarrow> jstring" where
  "formatEntries entries = join (map formatEntry entries) [0x0A]"

definition front_entries :: "WorldEntry list \<Rightarrow> WorldEntry list" where
  "front_entries entries = filter (\<lambda>e. injectionPosition e = Some (js ''front'')) entries"

definition middle_entries :: "WorldEntry list \<Rightarrow> WorldEntry list" where
  "middle_entries entries =
     filter (\<lambda>e. injectionPosition e = None \<or> injectionPosition e = Some [] \<or>
                 injectionPosition e = Some (js ''middle'')) entries"

definition back_entries :: "WorldEntry list \<Rightarrow> WorldEntry list" where
  "back_entries entries = filter (\<lambda>e. injectionPosition e = Some (js ''back'')) entries"

text \<open>The positions the type \<^verbatim>\<open>InjectionPosition\<close> allows, or none.\<close>

definition valid_position :: "WorldEntry \<Rightarrow> bool" where
  "valid_position e \<longleftrightarrow>
     injectionPosition e = None \<or> injectionPosition e = Some (js ''front'') \<or>
     injectionPosition e = Some (js ''middle'') \<or> injectionPosition e = Some (js ''back'')"

text \<open>
  The world entries in the words of the specification. The formatted line of an entry is
  U+3010, its title, U+3011, a colon, a space, its content. An entry belongs to the group
  its position names, to \<^verbatim>\<open>middle\<close> when it has none. The text of a group is the formatted
  lines of its entries, in input order, with a line feed between two lines.
\<close>

definition entry_line :: "WorldEntry \<Rightarrow> jstring" where
  "entry_line e = [0x3010] @ title e @ [0x3011, 0x003A, 0x0020] @ content e"

definition group_of :: "WorldEntry \<Rightarrow> jstring" where
  "group_of e = (case injectionPosition e of None \<Rightarrow> js ''middle'' | Some g \<Rightarrow> g)"

fun lines_text :: "jstring list \<Rightarrow> jstring" where
  "lines_text [] = []"
| "lines_text (l # ls) = l @ concat (map (\<lambda>x. 0x0A # x) ls)"

definition group_text :: "jstring \<Rightarrow> WorldEntry list \<Rightarrow> jstring" where
  "group_text g entries = lines_text (map entry_line (filter (\<lambda>e. group_of e = g) entries))"

text \<open>The template of \<^verbatim>\<open>worldContext\<close>, before and after its \<^verbatim>\<open>.trim()\<close>.\<close>

definition worldContext_template :: "WorldEntry list \<Rightarrow> jstring" where
  "worldContext_template entries =
     [0x0A] @ world_header @ [0x0A] @
     formatEntries (front_entries entries) @ [0x0A] @
     formatEntries (middle_entries entries) @ [0x0A] @
     formatEntries (back_entries entries) @ [0x0A]"

definition worldContext :: "WorldEntry list \<Rightarrow> jstring" where
  "worldContext entries = trim (worldContext_template entries)"

definition timeContext :: "runtime \<Rightarrow> ChatConfig \<Rightarrow> jstring" where
  "timeContext rt config =
     (if timeAwareness config then
        time_context_1 @ format_time rt (aiTimezone config) @ time_context_2 @
        format_time rt (userTimezone config) @ time_context_3
      else [])"

definition outputControl :: "runtime \<Rightarrow> ChatConfig \<Rightarrow> jstring" where
  "outputControl rt config =
     trim (output_control_1 @ number_text rt (minResponseCount config) @ output_control_2 @
           number_text rt (maxResponseCount config) @ output_control_3 @
           number_text rt (maxCharacterCount config) @ output_control_4)"

definition constructSystemInstruction ::
  "runtime \<Rightarrow> ChatConfig \<Rightarrow> jstring" where
  "constructSystemInstruction rt config =
     trim (instruction_1 @
           (if aiPersona config \<noteq> [] then aiPersona config else default_ai_persona) @
           instruction_2 @ userName config @ instruction_3 @
           (if userPersona config \<noteq> [] then userPersona config else default_user_persona) @
           instruction_4 @ worldContext (worldEntries config) @
           instruction_5 @ timeContext rt config @
           instruction_6 @ getLanguagePrompt (language config) @
           instruction_7 @ outputControl rt config @ instruction_8)"

text \<open>
  The instruction before and after the world block, without the line feed that begins
  and the line feed that ends the template.
\<close>

definition instruction_before :: "ChatConfig \<Rightarrow> jstring" where
  "instruction_before config =
     tl instruction_1 @
     (if aiPersona config \<noteq> [] then aiPersona config else default_ai_persona) @
     instruction_2 @ userName config @ instruction_3 @
     (if userPersona config \<noteq> [] then userPersona config else default_user_persona) @
     instruction_4"

definition instruction_after :: "runtime \<Rightarrow> ChatConfig \<Rightarrow> jstring" where
  "instruction_after rt config =
     instruction_5 @ timeContext rt config @
     instruction_6 @ getLanguagePrompt (language config) @
     instruction_7 @ outputControl rt config @ butlast instruction_8"

section \<open>ProtocolSelector: initChat\<close>

text \<open>
  \<^verbatim>\<open>
  this.currentBaseUrl = config.apiUrl.replace(/\/$/, '');
  this.currentApiKey = (config.apiKey || process.env.API_KEY || '').trim();
  this.currentModel = config.modelName;
  this.currentTemperature = config.temperature;
  this.currentSystemInstruction = this.constructSystemInstruction(config);
  if (this.currentBaseUrl.includes('generativelanguage.googleapis.com')) {
    this.ai = new GoogleGenAI({ apiKey: this.currentApiKey });
    this.chat = this.ai.chats.create({ model: this.currentModel, config: { ... } });
  } else { this.ai = null; this.chat = null; }
  \<close>
  \<open>env_API_KEY\<close> is \<^verbatim>\<open>process.env.API_KEY\<close> (\<open>None\<close>: \<^verbatim>\<open>undefined\<close>). The two
  constructors of the vendor SDK return; with the four time zones of \<^verbatim>\<open>RegionTimezone\<close>
  the clock does not throw, so every assignment of the call is made.
\<close>

definition replace_trailing_slash :: "jstring \<Rightarrow> jstring" where
  "replace_trailing_slash s = (if s \<noteq> [] \<and> last s = 0x2F then butlast s else s)"

definition VENDOR_DOMAIN :: jstring where
  "VENDOR_DOMAIN = js ''generativelanguage.googleapis.com''"

definition initChat ::
  "jstring option \<Rightarrow> runtime \<Rightarrow> ChatConfig \<Rightarrow> AIService \<Rightarrow> AIService" where
  "initChat env_API_KEY rt config this =
     (let this1 = this\<lparr>currentBaseUrl := replace_trailing_slash (apiUrl config)\<rparr>;
          this2 = this1\<lparr>currentApiKey :=
                    trim (if apiKey config \<noteq> [] then apiKey config
                          else (case env_API_KEY of
                                  None \<Rightarrow> []
                                | Some k \<Rightarrow> if k \<noteq> [] then k else []))\<rparr>;
          this3 = this2\<lparr>currentModel := modelName config\<rparr>;
          this4 = this3\<lparr>currentTemperature := temperature config\<rparr>;
          this5 = this4\<lparr>currentSystemInstruction :=
                    constructSystemInstruction rt config\<rparr>
      in if js_includes (currentBaseUrl this5) VENDOR_DOMAIN then
           (let client = \<lparr>client_apiKey = currentApiKey this5\<rparr>;
                this6 = this5\<lparr>ai := Some client\<rparr>
            in this6\<lparr>chat := Some \<lparr>chat_client = client,
                                    chat_model = currentModel this6,
                                    chat_systemInstruction = currentSystemInstruction this6,
                                    chat_temperature = currentTemperature this6\<rparr>\<rparr>)
         else this5\<lparr>ai := None, chat := None\<rparr>)"

section \<open>The collaborators: HTTP and the vendor SDK\<close>

text \<open>
  A request is what the program hands to \<^verbatim>\<open>fetch\<close>; \<open>body\<close> is the object given to
  \<^verbatim>\<open>JSON.stringify\<close> (\<open>body_stream = None\<close>: no \<^verbatim>\<open>stream\<close> property). Headers are in
  insertion order.
\<close>

record chat_message =
  role :: jstring
  message_content :: jstring

record request_body =
  body_model :: jstring
  body_messages :: "chat_message list"
  body_temperature :: js_number
  body_stream :: "bool option"

record request =
  url :: jstring
  http_method :: jstring
  headers :: "(jstring \<times> jstring) list"
  body :: request_body

text \<open>
  A response, as far as the program reads it: \<^verbatim>\<open>ok\<close>, \<^verbatim>\<open>status\<close>, what
  \<^verbatim>\<open>response.json()\<close> settles to, and \<^verbatim>\<open>response.body\<close> (\<open>None\<close>: \<^verbatim>\<open>null\<close>).
\<close>

record response =
  ok :: bool
  status :: nat
  response_json :: "js_error + json"
  response_body :: "body_stream option"

text \<open>The stream of a vendor chat: the \<^verbatim>\<open>text\<close> of each chunk, and how the iteration ends.\<close>

record vendor_stream =
  vendor_chunks :: "jstring option list"
  vendor_failure :: "js_error option"

text \<open>
  Every function below returns, beside its result, the calls it made to its
  collaborators, in order: \<^verbatim>\<open>ai.models.generateContent({ model, contents })\<close>,
  \<^verbatim>\<open>chat.sendMessageStream({ message })\<close> and \<^verbatim>\<open>fetch\<close>.
\<close>

datatype call =
    GenerateContent GoogleGenAI jstring jstring
  | ChatSendMessageStream Chat jstring
  | Fetch request

text \<open>\<^verbatim>\<open>try { body } catch (e) { handler }\<close>\<close>

definition try_catch :: "js_error + 'a \<Rightarrow> (js_error \<Rightarrow> js_error + 'a) \<Rightarrow> js_error + 'a" where
  "try_catch block handler = (case block of Inl e \<Rightarrow> handler e | Inr v \<Rightarrow> Inr v)"

text \<open>
  The headers of both generic calls:
  \<^verbatim>\<open>
  const headers = { 'Content-Type': 'application/json' };
  if (this.isHeaderSafe(this.currentApiKey)) {
    headers['Authorization'] = "Bearer " + this.currentApiKey;
  }
  \<close>
\<close>

definition request_headers :: "AIService \<Rightarrow> (jstring \<times> jstring) list" where
  "request_headers this =
     [(js ''Content-Type'', js ''application/json'')] @
     (if isHeaderSafe (currentApiKey this)
      then [(js ''Authorization'', js ''Bearer '' @ currentApiKey this)] else [])"

section \<open>Translator: translateText\<close>

definition translate_prompt_1 :: jstring where
  "translate_prompt_1 =
     [0x4F60, 0x662F, 0x4E00, 0x4E2A, 0x7CBE, 0x901A, 0x591A, 0x56FD, 0x8BED, 0x8A00, 0x7684,
      0x8D44, 0x6DF1, 0x7FFB, 0x8BD1, 0x4E13, 0x5BB6, 0x3002, 0x8BF7, 0x5C06, 0x4EE5, 0x4E0B,
      0x6587, 0x672C, 0x7FFB, 0x8BD1, 0x6210]"

definition translate_prompt_2 :: jstring where
  "translate_prompt_2 =
     [0x3002, 0x000A, 0x000A] @ js ''### '' @ [0x5F3A, 0x5236, 0x8981, 0x6C42, 0xFF1A, 0x000A] @
     js ''1. **'' @ [0x5730, 0x9053, 0x8868, 0x8FBE] @ js ''**'' @
     [0xFF1A, 0x7FFB, 0x8BD1, 0x7ED3, 0x679C, 0x5FC5, 0x987B, 0x7B26, 0x5408]"

definition translate_prompt_3 :: jstring where
  "translate_prompt_3 =
     [0x6BCD, 0x8BED, 0x8005, 0x7684, 0x65E5, 0x5E38, 0x8868, 0x8FBE, 0x4E60, 0x60EF, 0xFF0C,
      0x4E25, 0x7981, 0x50F5, 0x786C, 0x6B7B, 0x677F, 0x7684, 0x5B57, 0x9762, 0x5BF9, 0x9F50,
      0x3002, 0x000A] @
     js ''2. **'' @ [0x5904, 0x7406, 0x201C, 0x4F2A, 0x53CB, 0x201D, 0x8BCD, 0x6C47] @
     js ''**'' @
     [0xFF1A, 0x5F53, 0x6E90, 0x6587, 0x672C, 0x4E0E, 0x76EE, 0x6807, 0x8BED, 0x8A00, 0x5B58,
      0x5728, 0x5B57, 0x5F62, 0x76F8, 0x540C, 0x4F46, 0x542B, 0x4E49, 0x4E0D, 0x540C, 0x7684,
      0x8BCD, 0x6C47, 0x65F6, 0xFF08, 0x7279, 0x522B, 0x662F, 0x65E5, 0x6587, 0x6C49, 0x5B57,
      0x4E0E, 0x4E2D, 0x6587, 0xFF09, 0xFF0C, 0x5FC5, 0x987B, 0x6839, 0x636E, 0x5B9E, 0x9645,
      0x542B, 0x4E49, 0x8FDB, 0x884C, 0x610F, 0x8BD1, 0x3002, 0x4F8B, 0x5982, 0xFF0C, 0x65E5,
      0x6587, 0x7684, 0x201C, 0x5927, 0x4E08, 0x592B, 0x201D, 0x5E94, 0x6839, 0x636E, 0x8BED,
      0x5883, 0x7FFB, 0x8BD1, 0x4E3A, 0x201C, 0x6CA1, 0x5173, 0x7CFB, 0x201D, 0x3001, 0x201C,
      0x6211, 0x5F88, 0x597D, 0x201D, 0x6216, 0x201C, 0x6CA1, 0x95EE, 0x9898, 0x201D, 0xFF0C,
      0x7EDD, 0x4E0D, 0x80FD, 0x4FDD, 0x7559, 0x539F, 0x5B57, 0x3002, 0x000A] @
     js ''3. **'' @ [0x4FDD, 0x6301, 0x8BED, 0x6C14] @ js ''**'' @
     [0xFF1A, 0x4FDD, 0x7559, 0x539F, 0x53E5, 0x7684, 0x60C5, 0x611F, 0x8272, 0x5F69, 0x548C,
      0x8BED, 0x5883, 0x3002, 0x000A] @
     js ''4. **'' @ [0x7B80, 0x6D01, 0x8F93, 0x51FA] @ js ''**'' @
     [0xFF1A, 0x76F4, 0x63A5, 0x8F93, 0x51FA, 0x7FFB, 0x8BD1, 0x540E, 0x7684, 0x6587, 0x672C,
      0xFF0C, 0x4E25, 0x7981, 0x5305, 0x542B, 0x4EFB, 0x4F55, 0x89E3, 0x91CA, 0x8BF4, 0x660E,
      0x3001, 0x6CE8, 0x97F3, 0x6216, 0x539F, 0x6587, 0x3002, 0x000A, 0x000A] @
     js ''### '' @ [0x5F85, 0x7FFB, 0x8BD1, 0x6587, 0x672C, 0xFF1A, 0x000A]"

definition translate_prompt_4 :: jstring where
  "translate_prompt_4 =
     []"

definition TRANSLATION_FAILED :: jstring where
  "TRANSLATION_FAILED =
     [0x7FFB, 0x8BD1, 0x5931, 0x8D25]"

definition TRANSLATION_UNAVAILABLE :: jstring where
  "TRANSLATION_UNAVAILABLE =
     [0x7FFB, 0x8BD1, 0x670D, 0x52A1, 0x6682, 0x4E0D, 0x53EF, 0x7528]"

definition TRANSLATION_REQUEST_FAILED :: jstring where
  "TRANSLATION_REQUEST_FAILED =
     [0x7FFB, 0x8BD1, 0x8BF7, 0x6C42, 0x5931, 0x8D25]"

definition GEMINI_FLASH :: jstring where
  "GEMINI_FLASH = js ''gemini-3-flash-preview''"

definition translate_prompt :: "jstring \<Rightarrow> jstring \<Rightarrow> jstring" where
  "translate_prompt text targetLang =
     (let langName = getLanguageName targetLang in
      translate_prompt_1 @ langName @ translate_prompt_2 @ langName @ translate_prompt_3 @
      text @ translate_prompt_4)"

text \<open>\<^verbatim>\<open>x?.trim() || sentinel\<close> on a string or \<^verbatim>\<open>undefined\<close>.\<close>

definition trimmed_or_failed :: "jstring option \<Rightarrow> jstring" where
  "trimmed_or_failed x =
     (case x of
        None \<Rightarrow> TRANSLATION_FAILED
      | Some t \<Rightarrow> if trim t \<noteq> [] then trim t else TRANSLATION_FAILED)"

text \<open>
  \<^verbatim>\<open>return data.choices[0]?.message?.content?.trim() || sentinel;\<close>
  A content that is neither a string nor \<^verbatim>\<open>null\<close> nor \<^verbatim>\<open>undefined\<close> has no function
  \<^verbatim>\<open>trim\<close>: the call throws.
\<close>

definition message_content_of :: "json \<Rightarrow> js_error + jstring" where
  "message_content_of data =
     (case first_choice data of
        Inl e \<Rightarrow> Inl e
      | Inr choice \<Rightarrow>
          (case opt_member (opt_member choice (js ''message'')) (js ''content'') of
             None \<Rightarrow> Inr (trimmed_or_failed None)
           | Some JNull \<Rightarrow> Inr (trimmed_or_failed None)
           | Some (JStr s) \<Rightarrow> Inr (trimmed_or_failed (Some s))
           | Some v \<Rightarrow> Inl TypeError))"

definition translate_request :: "AIService \<Rightarrow> jstring \<Rightarrow> request" where
  "translate_request this prompt =
     \<lparr>url = currentBaseUrl this @ js ''/v1/chat/completions'',
      http_method = js ''POST'',
      headers = request_headers this,
      body = \<lparr>body_model = currentModel this,
              body_messages = [\<lparr>role = js ''user'', message_content = prompt\<rparr>],
              body_temperature = Finite (3 / 10),
              body_stream = None\<rparr>\<rparr>"

text \<open>
  \<^verbatim>\<open>
  if (this.ai) {
    try {
      const response = await this.ai.models.generateContent({ model: 'gemini-3-flash-preview', contents: prompt });
      return response.text?.trim() || sentinel1;
    } catch (e) { return sentinel1; }
  }
  try {
    ... const response = await fetch(...);
    if (!response.ok) throw new Error(...);
    const data = await response.json();
    return data.choices[0]?.message?.content?.trim() || sentinel1;
  } catch (e) { return sentinel2; }
  \<close>
  \<open>generateContent\<close> gives the \<^verbatim>\<open>text\<close> of the vendor's response or the error it throws.
  The result is \<open>Inl\<close> when the call throws, \<open>Inr\<close> the string it returns.
\<close>

definition translateText ::
  "(GoogleGenAI \<Rightarrow> jstring \<Rightarrow> jstring \<Rightarrow> js_error + jstring option) \<Rightarrow>
   (request \<Rightarrow> js_error + response) \<Rightarrow>
   AIService \<Rightarrow> jstring \<Rightarrow> jstring \<Rightarrow> (js_error + jstring) \<times> call list" where
  "translateText generateContent fetch this text targetLang =
     (let prompt = translate_prompt text targetLang in
      case ai this of
        Some client \<Rightarrow>
          (try_catch
             (case generateContent client GEMINI_FLASH prompt of
                Inl e \<Rightarrow> Inl e
              | Inr response_text \<Rightarrow> Inr (trimmed_or_failed response_text))
             (\<lambda>e. Inr TRANSLATION_FAILED),
           [GenerateContent client GEMINI_FLASH prompt])
      | None \<Rightarrow>
          (let req = translate_request this prompt in
           (try_catch
              (case fetch req of
                 Inl e \<Rightarrow> Inl e
               | Inr resp \<Rightarrow>
                   if \<not> ok resp then Inl (Error (JStr TRANSLATION_REQUEST_FAILED))
                   else (case response_json resp of
                           Inl e \<Rightarrow> Inl e
                         | Inr data \<Rightarrow> message_content_of data))
              (\<lambda>e. Inr TRANSLATION_UNAVAILABLE),
            [Fetch req])))"

section \<open>sendMessageStream\<close>

definition REQUEST_FAILED :: jstring where
  "REQUEST_FAILED =
     [0x8BF7, 0x6C42, 0x5931, 0x8D25] @ js '': ''"

record Message =
  msg_id :: jstring
  msg_role :: jstring
  msg_content :: jstring

definition stream_request :: "AIService \<Rightarrow> jstring \<Rightarrow> Message list \<Rightarrow> request" where
  "stream_request this message history =
     \<lparr>url = currentBaseUrl this @ js ''/v1/chat/completions'',
      http_method = js ''POST'',
      headers = request_headers this,
      body = \<lparr>body_model = currentModel this,
              body_messages =
                [\<lparr>role = js ''system'', message_content = currentSystemInstruction this\<rparr>] @
                map (\<lambda>m. \<lparr>role = (if msg_role m = js ''user'' then js ''user''
                                   else js ''assistant''),
                           message_content = msg_content m\<rparr>) history @
                [\<lparr>role = js ''user'', message_content = message\<rparr>],
              body_temperature = currentTemperature this,
              body_stream = Some True\<rparr>\<rparr>"

text \<open>
  What a response that is not ok makes the call throw:
  \<^verbatim>\<open>
  const errData = await response.json().catch(() => ({}));
  throw new Error(errData.error?.message || "<REQUEST_FAILED>" + response.status);
  \<close>
  The read \<^verbatim>\<open>errData.error\<close> has no optional chaining: on the body \<^verbatim>\<open>null\<close> it throws a
  TypeError instead.
\<close>

definition status_message :: "response \<Rightarrow> jstring" where
  "status_message resp = REQUEST_FAILED @ show_nat (status resp)"

definition response_error :: "response \<Rightarrow> js_error" where
  "response_error resp =
     (let errData = (case response_json resp of Inl e \<Rightarrow> JObj [] | Inr v \<Rightarrow> v) in
      case errData of
        JNull \<Rightarrow> TypeError
      | _ \<Rightarrow> (case opt_member (member errData (js ''error'')) (js ''message'') of
                None \<Rightarrow> Error (JStr (status_message resp))
              | Some m \<Rightarrow> if truthy m then Error m else Error (JStr (status_message resp))))"

text \<open>
  The generator, run to its end: the values it yields, how it ends (\<open>None\<close>: it returns;
  \<open>Some e\<close>: it throws \<open>e\<close>), and the calls it made.
  \<^verbatim>\<open>
  if (this.chat) {
    const stream = await this.chat.sendMessageStream({ message });
    for await (const chunk of stream) { yield chunk.text; }
    return;
  }
  ... const response = await fetch(...);
  if (!response.ok) { ... throw ... }
  ... the read loop
  \<close>
\<close>

definition sendMessageStream ::
  "(jstring \<Rightarrow> json option) \<Rightarrow>
   (Chat \<Rightarrow> jstring \<Rightarrow> js_error + vendor_stream) \<Rightarrow>
   (request \<Rightarrow> js_error + response) \<Rightarrow>
   AIService \<Rightarrow> jstring \<Rightarrow> Message list \<Rightarrow> (json option list \<times> js_error option) \<times> call list" where
  "sendMessageStream JSON_parse chat_send fetch this message history =
     (case chat this of
        Some session \<Rightarrow>
          ((case chat_send session message of
              Inl e \<Rightarrow> ([], Some e)
            | Inr stream \<Rightarrow> (map (map_option JStr) (vendor_chunks stream), vendor_failure stream)),
           [ChatSendMessageStream session message])
      | None \<Rightarrow>
          (let req = stream_request this message history in
           ((case fetch req of
               Inl e \<Rightarrow> ([], Some e)
             | Inr resp \<Rightarrow>
                 if \<not> ok resp then ([], Some (response_error resp))
                 else (let (deltas, ending) = parse_stream JSON_parse (response_body resp)
                       in (map Some deltas, ending))),
            [Fetch req])))"

text \<open>The same response with its body delivered as one chunk.\<close>

definition unsplit :: "response \<Rightarrow> response" where
  "unsplit resp =
     resp\<lparr>response_body :=
            map_option (\<lambda>b. b\<lparr>chunks := [concat (chunks b)]\<rparr>) (response_body resp)\<rparr>"

text \<open>A collaborator that delivers every response body as one chunk.\<close>

definition deliver_unsplit ::
  "(request \<Rightarrow> js_error + response) \<Rightarrow> request \<Rightarrow> js_error + response" where
  "deliver_unsplit fetch req = (case fetch req of Inl e \<Rightarrow> Inl e | Inr resp \<Rightarrow> Inr (unsplit resp))"

section \<open>The fields of a response, as the specification names them\<close>

text \<open>
  \<open>choice_field data a b\<close> is the field \<^verbatim>\<open>choices[0].a.b\<close> of \<open>data\<close>: present when every
  step of the path is.
\<close>

definition choice_field :: "json \<Rightarrow> jstring \<Rightarrow> jstring \<Rightarrow> json option" where
  "choice_field data a b =
     Option.bind (member data (js ''choices''))
       (\<lambda>choices. Option.bind (first choices)
          (\<lambda>choice. Option.bind (member choice a) (\<lambda>x. member x b)))"

text \<open>
  The translated text the configured backend delivers, if it delivers one: the \<^verbatim>\<open>text\<close>
  of the vendor's response when a vendor client is set, else the string at
  \<^verbatim>\<open>choices[0].message.content\<close> of a successful response's JSON body.
\<close>

definition backend_translation ::
  "(GoogleGenAI \<Rightarrow> jstring \<Rightarrow> jstring \<Rightarrow> js_error + jstring option) \<Rightarrow>
   (request \<Rightarrow> js_error + response) \<Rightarrow>
   AIService \<Rightarrow> jstring \<Rightarrow> jstring \<Rightarrow> jstring option" where
  "backend_translation generateContent fetch this input targetLang =
     (let prompt = translate_prompt input targetLang in
      case ai this of
        Some client \<Rightarrow>
          (case generateContent client GEMINI_FLASH prompt of
             Inr (Some raw) \<Rightarrow> Some raw
           | _ \<Rightarrow> None)
      | None \<Rightarrow>
          (case fetch (translate_request this prompt) of
             Inl e \<Rightarrow> None
           | Inr resp \<Rightarrow>
               if ok resp then
                 (case response_json resp of
                    Inl e \<Rightarrow> None
                  | Inr data \<Rightarrow>
                      (case choice_field data (js ''message'') (js ''content'') of
                         Some (JStr raw) \<Rightarrow> Some raw
                       | _ \<Rightarrow> None))
               else None))"

section \<open>The life of a session\<close>

text \<open>
  The operations a caller can invoke on the service, and the state each leaves behind.
  \<^verbatim>\<open>translateText\<close> and \<^verbatim>\<open>sendMessageStream\<close> assign no field of the service.
\<close>

datatype operation =
    InitChat ChatConfig
  | TranslateText jstring jstring
  | SendMessageStream jstring "Message list"

fun is_InitChat :: "operation \<Rightarrow> bool" where
  "is_InitChat (InitChat config) = True"
| "is_InitChat (TranslateText input targetLang) = False"
| "is_InitChat (SendMessageStream message history) = False"

fun state_after ::
  "jstring option \<Rightarrow> runtime \<Rightarrow> AIService \<Rightarrow> operation \<Rightarrow> AIService" where
  "state_after env_API_KEY rt this (InitChat config) = initChat env_API_KEY rt config this"
| "state_after env_API_KEY rt this (TranslateText input targetLang) = this"
| "state_after env_API_KEY rt this (SendMessageStream message history) = this"

definition state_after_all ::
  "jstring option \<Rightarrow> runtime \<Rightarrow> AIService \<Rightarrow> operation list \<Rightarrow> AIService" where
  "state_after_all env_API_KEY rt this ops = foldl (state_after env_API_KEY rt) this ops"

section \<open>Sample collaborators and states\<close>

definition offline_fetch :: "request \<Rightarrow> js_error + response" where
  "offline_fetch req = Inl (Thrown (js ''Failed to fetch''))"

definition failing_generateContent ::
  "GoogleGenAI \<Rightarrow> jstring \<Rightarrow> jstring \<Rightarrow> js_error + jstring option" where
  "failing_generateContent client model contents = Inl (Thrown (js ''quota exceeded''))"

definition failing_chat_send :: "Chat \<Rightarrow> jstring \<Rightarrow> js_error + vendor_stream" where
  "failing_chat_send session message = Inl (Thrown (js ''quota exceeded''))"

definition no_parse :: "jstring \<Rightarrow> json option" where
  "no_parse s = None"

definition keyed_service :: AIService where
  "keyed_service = new_AIService\<lparr>currentApiKey := js ''sk-abc123''\<rparr>"

text \<open>
  A server that streams two frames with a malformed line between them; \<open>sample_parse\<close> is
  \<^verbatim>\<open>JSON.parse\<close> on the lines of that stream.
\<close>

definition frame_hi :: jstring where
  "frame_hi =
     js ''{'' @ [0x0022] @ js ''choices'' @ [0x0022] @ js '':[{'' @ [0x0022] @ js ''delta'' @
     [0x0022] @ js '':{'' @ [0x0022] @ js ''content'' @ [0x0022] @ js '':'' @ [0x0022] @
     js ''Hi'' @ [0x0022] @ js ''}}]}''"

definition frame_there :: jstring where
  "frame_there =
     js ''{'' @ [0x0022] @ js ''choices'' @ [0x0022] @ js '':[{'' @ [0x0022] @ js ''delta'' @
     [0x0022] @ js '':{'' @ [0x0022] @ js ''content'' @ [0x0022] @ js '':'' @ [0x0022] @
     js '' there'' @ [0x0022] @ js ''}}]}''"

definition delta_frame :: "jstring \<Rightarrow> json" where
  "delta_frame t =
     JObj [(js ''choices'', JArr [JObj [(js ''delta'', JObj [(js ''content'', JStr t)])]])]"

definition sample_parse :: "jstring \<Rightarrow> json option" where
  "sample_parse s =
     (if s = frame_hi then Some (delta_frame (js ''Hi''))
      else if s = frame_there then Some (delta_frame (js '' there''))
      else None)"

definition sample_lines :: "jstring list" where
  "sample_lines = [js ''data: '' @ frame_hi, js ''data: not-json'', js ''data: '' @ frame_there]"

text \<open>The bytes of a text of ASCII characters.\<close>

definition ascii_bytes :: "jstring \<Rightarrow> byte list" where
  "ascii_bytes s = map ucast s"

definition sample_bytes :: "byte list" where
  "sample_bytes = ascii_bytes (concat (map (\<lambda>l. l @ [0x0A]) sample_lines))"

definition sample_chunks :: "byte list list" where
  "sample_chunks = [take 20 sample_bytes, drop 20 sample_bytes]"

text \<open>Sample configurations, a clock, and the sessions they initialise.\<close>

definition sample_clock :: runtime where
  "sample_clock = \<lparr>format_time = (\<lambda>tz. js ''12:00''), large_number_text = show_nat\<rparr>"

definition lore_entry :: WorldEntry where
  "lore_entry =
     \<lparr>entry_id = js ''1'', title = js ''Moon'', content = js ''two moons'',
      category = js ''sky'', injectionPosition = Some (js ''back'')\<rparr>"

definition rule_entry :: WorldEntry where
  "rule_entry =
     \<lparr>entry_id = js ''2'', title = js ''Rule'', content = js ''no magic'',
      category = js ''law'', injectionPosition = None\<rparr>"

definition tab_entry :: WorldEntry where
  "tab_entry =
     \<lparr>entry_id = js ''3'', title = js ''t'', content = js ''c'' @ [0x0009],
      category = js ''misc'', injectionPosition = Some (js ''back'')\<rparr>"

definition gate_entry :: WorldEntry where
  "gate_entry =
     \<lparr>entry_id = js ''4'', title = js ''Gate'', content = js ''iron'',
      category = js ''town'', injectionPosition = Some (js ''front'')\<rparr>"

definition generic_config :: ChatConfig where
  "generic_config =
     \<lparr>userName = js ''Ann'', aiPersona = [], userPersona = [],
      worldEntries = [lore_entry, rule_entry, gate_entry], modelName = js ''gpt-4o'',
      apiKey = js ''sk-abc123'', apiUrl = js ''https://api.example.com/'',
      temperature = Finite 1, language = js ''en'', timeAwareness = False,
      userTimezone = Asia_Shanghai, aiTimezone = Asia_Tokyo,
      minResponseCount = 1, maxResponseCount = 3, maxCharacterCount = 15\<rparr>"

definition vendor_config :: ChatConfig where
  "vendor_config =
     generic_config\<lparr>apiUrl := js ''https://generativelanguage.googleapis.com''\<rparr>"

definition tab_config :: ChatConfig where
  "tab_config = generic_config\<lparr>worldEntries := [tab_entry]\<rparr>"

definition generic_service :: AIService where
  "generic_service = initChat None sample_clock generic_config new_AIService"

definition vendor_service :: AIService where
  "vendor_service = initChat None sample_clock vendor_config new_AIService"

text \<open>
  Servers that answer every request with status 200 and the body \<^verbatim>\<open>{}\<close>, or the body
  \<^verbatim>\<open>{"choices":[]}\<close>.
\<close>

definition empty_object_response :: response where
  "empty_object_response =
     \<lparr>ok = True, status = 200, response_json = Inr (JObj []), response_body = None\<rparr>"

definition empty_object_fetch :: "request \<Rightarrow> js_error + response" where
  "empty_object_fetch req = Inr empty_object_response"

definition empty_choices_response :: response where
  "empty_choices_response =
     \<lparr>ok = True, status = 200, response_json = Inr (JObj [(js ''choices'', JArr [])]),
      response_body = None\<rparr>"

definition empty_choices_fetch :: "request \<Rightarrow> js_error + response" where
  "empty_choices_fetch req = Inr empty_choices_response"

text \<open>A server that answers every request with status 500 and the body \<^verbatim>\<open>null\<close>.\<close>

definition null_body_response :: response where
  "null_body_response =
     \<lparr>ok = False, status = 500, response_json = Inr JNull, response_body = None\<rparr>"

definition null_body_fetch :: "request \<Rightarrow> js_error + response" where
  "null_body_fetch req = Inr null_body_response"

section \<open>Properties of the string operations\<close>

lemma split_from_Nil [simp]: "split_from sep acc [] = [acc]"
  by (subst split_from.simps) simp

lemma split_from_Cons:
  "split_from sep acc (x # xs) =
     (if sep \<noteq> [] \<and> prefix sep (x # xs) then acc # split_from sep [] (drop (length sep) (x # xs))
      else split_from sep (acc @ [x]) xs)"
  by (subst split_from.simps) simp

lemma split_from_nonempty [simp]: "split_from sep acc s \<noteq> []"
  by (induction sep acc s rule: split_from.induct) (subst split_from.simps, simp)

lemma js_includes_iff: "js_includes s t \<longleftrightarrow> (\<exists>p q. s = p @ t @ q)"
proof (induction s)
  case Nil
  then show ?case by auto
next
  case (Cons c s)
  show ?case
  proof
    assume "js_includes (c # s) t"
    then consider "prefix t (c # s)" | "js_includes s t" by auto
    then show "\<exists>p q. c # s = p @ t @ q"
    proof cases
      case 1
      then obtain q where "c # s = t @ q" by (auto simp: prefix_def)
      then have "c # s = [] @ t @ q" by simp
      then show ?thesis by blast
    next
      case 2
      with Cons.IH obtain p q where "s = p @ t @ q" by auto
      then have "c # s = (c # p) @ t @ q" by simp
      then show ?thesis by blast
    qed
  next
    assume "\<exists>p q. c # s = p @ t @ q"
    then obtain p q where pq: "c # s = p @ t @ q" by auto
    show "js_includes (c # s) t"
    proof (cases p)
      case Nil
      with pq have "prefix t (c # s)" by simp
      then show ?thesis by simp
    next
      case (Cons a p')
      with pq have "s = p' @ t @ q" by simp
      with Cons.IH show ?thesis by auto
    qed
  qed
qed

lemma join_Cons: "xs \<noteq> [] \<Longrightarrow> join (x # xs) sep = x @ sep @ join xs sep"
  by (cases xs) simp_all

text \<open>Joining the pieces of a split with the separator gives the text back.\<close>

lemma join_split_from: "join (split_from sep acc s) sep = acc @ s"
proof (induction sep acc s rule: split_from.induct)
  case (1 sep acc s)
  show ?case
  proof (cases "s = []")
    case True
    then show ?thesis by simp
  next
    case ne: False
    show ?thesis
    proof (cases "sep \<noteq> [] \<and> prefix sep s")
      case True
      then obtain r where r: "s = sep @ r" by (auto simp: prefix_def)
      have "join (split_from sep [] (drop (length sep) s)) sep = drop (length sep) s"
        using "1.IH"(1)[OF ne True] by simp
      then show ?thesis
        using ne True r by (subst split_from.simps) (simp add: join_Cons)
    next
      case False
      have "join (split_from sep (acc @ [hd s]) (tl s)) sep = (acc @ [hd s]) @ tl s"
        using "1.IH"(2)[OF ne False] .
      then show ?thesis
        using ne False by (subst split_from.simps) auto
    qed
  qed
qed

lemma join_split: "join (split s sep) sep = s"
  by (simp add: split_def join_split_from)

text \<open>No piece of a split contains the separator.\<close>

lemma split_from_pieces:
  assumes "sep \<noteq> []"
    and "\<And>k. k < length acc \<Longrightarrow> \<not> prefix sep (drop k (acc @ s))"
    and "x \<in> set (split_from sep acc s)"
  shows "\<not> js_includes x sep"
  using assms
proof (induction sep acc s arbitrary: x rule: split_from.induct)
  case (1 sep acc s)
  have acc: "\<not> js_includes acc sep"
  proof
    assume "js_includes acc sep"
    then obtain p q where pq: "acc = p @ sep @ q" unfolding js_includes_iff by blast
    then have "length p < length acc" using "1.prems"(1) by (cases sep) simp_all
    moreover have "prefix sep (drop (length p) (acc @ s))" using pq by simp
    ultimately show False using "1.prems"(2) by blast
  qed
  show ?case
  proof (cases "s = []")
    case True
    with "1.prems"(3) acc show ?thesis by simp
  next
    case ne: False
    show ?thesis
    proof (cases "sep \<noteq> [] \<and> prefix sep s")
      case True
      then have "x = acc \<or> x \<in> set (split_from sep [] (drop (length sep) s))"
        using "1.prems"(3) ne by (subst (asm) split_from.simps) simp
      then show ?thesis
        using acc "1.IH"(1)[OF ne True "1.prems"(1)] by auto
    next
      case False
      then have np: "\<not> prefix sep s" using "1.prems"(1) by simp
      have x: "x \<in> set (split_from sep (acc @ [hd s]) (tl s))"
        using "1.prems"(3) ne False by (subst (asm) split_from.simps) auto
      have inv: "\<not> prefix sep (drop k ((acc @ [hd s]) @ tl s))" if "k < length (acc @ [hd s])" for k
      proof (cases "k < length acc")
        case True
        then show ?thesis using "1.prems"(2)[OF True] ne by simp
      next
        case False
        with that have "k = length acc" by simp
        then show ?thesis using np ne by simp
      qed
      show ?thesis
        by (rule "1.IH"(2)[OF ne False "1.prems"(1) inv x])
    qed
  qed
qed

lemma split_pieces: "sep \<noteq> [] \<Longrightarrow> x \<in> set (split s sep) \<Longrightarrow> \<not> js_includes x sep"
  unfolding split_def by (rule split_from_pieces[where acc = "[]" and s = s]) simp_all

text \<open>Splitting at a single code unit.\<close>

lemma split_from_single_Cons:
  "split_from [c] acc (x # xs) =
     (if x = c then acc # split_from [c] [] xs else split_from [c] (acc @ [x]) xs)"
  by (simp add: split_from_Cons)

lemma split_from_single_append:
  "split_from [c] acc (a @ b) =
     butlast (split_from [c] acc a) @ split_from [c] (last (split_from [c] acc a)) b"
  by (induction a arbitrary: acc) (auto simp: split_from_single_Cons butlast_append)

lemma split_from_single_no_sep:
  "c \<notin> set a \<Longrightarrow> split_from [c] acc (a @ b) = split_from [c] (acc @ a) b"
  by (induction a arbitrary: acc) (auto simp: split_from_single_Cons)

lemma last_split_from_single:
  "c \<notin> set acc \<Longrightarrow> c \<notin> set (last (split_from [c] acc s))"
  by (induction s arbitrary: acc) (auto simp: split_from_single_Cons)

lemma split_append:
  "split (a @ b) [c] = butlast (split a [c]) @ split (last (split a [c]) @ b) [c]"
proof -
  have "c \<notin> set (last (split_from [c] [] a))"
    by (rule last_split_from_single) simp
  then have "split_from [c] [] (last (split_from [c] [] a) @ b) =
             split_from [c] (last (split_from [c] [] a)) b"
    using split_from_single_no_sep[of c "last (split_from [c] [] a)" "[]" b] by simp
  then show ?thesis
    by (simp add: split_def split_from_single_append)
qed

lemma split_no_sep: "c \<notin> set a \<Longrightarrow> split a [c] = [a]"
  using split_from_single_no_sep[of c a "[]" "[]"] by (simp add: split_def)

lemma last_split_no_sep: "c \<notin> set (last (split a [c]))"
  unfolding split_def by (rule last_split_from_single) simp

section \<open>MessageSplitter: properties\<close>

lemma handleReceive_messages_spec: "handleReceive_messages fullText = split_spec fullText"
  by (simp add: handleReceive_messages_def split_spec_def filter_map o_def Let_def)

text \<open>
  Claim C3. For every input the messages handed on are those of the specification's
  splitter: the input is split on the sentinel \<^verbatim>\<open>---MSG_BREAK---\<close> (joining the pieces
  with the sentinel gives the input back, and no piece contains the sentinel), each
  segment is trimmed, segments empty after
  trimming are dropped, the order is the input's; when nothing is left and the trimmed
  input is non-empty the result is that trimmed input alone. The three examples of the
  specification evaluate as it says.
\<close>

theorem message_splitter_spec:
  "handleReceive_messages fullText = split_spec fullText \<and>
   join (split fullText MSG_BREAK) MSG_BREAK = fullText \<and>
   list_all (\<lambda>piece. \<not> js_includes piece MSG_BREAK) (split fullText MSG_BREAK) \<and>
   handleReceive_messages (js ''A---MSG_BREAK---B---MSG_BREAK---  '') = [js ''A'', js ''B''] \<and>
   handleReceive_messages (js ''   '') = [] \<and>
   handleReceive_messages (js ''hello'') = [js ''hello'']"
proof -
  have 1: "handleReceive_messages (js ''A---MSG_BREAK---B---MSG_BREAK---  '') = [js ''A'', js ''B'']"
    by (simp add: handleReceive_messages_def split_def split_from_Cons MSG_BREAK_def js_def
          trim_def is_white_space_def)
  have 2: "handleReceive_messages (js ''   '') = []"
    by (simp add: handleReceive_messages_def split_def split_from_Cons MSG_BREAK_def js_def
          trim_def is_white_space_def)
  have 3: "handleReceive_messages (js ''hello'') = [js ''hello'']"
    by (simp add: handleReceive_messages_def split_def split_from_Cons MSG_BREAK_def js_def
          trim_def is_white_space_def)
  have 4: "list_all (\<lambda>piece. \<not> js_includes piece MSG_BREAK) (split fullText MSG_BREAK)"
    unfolding list_all_iff using split_pieces[of MSG_BREAK _ fullText]
    by (auto simp: MSG_BREAK_def js_def)
  show ?thesis
    using 1 2 3 4 by (simp add: handleReceive_messages_spec join_split)
qed

section \<open>HeaderSanitizer: properties\<close>

lemma isHeaderSafe_iff: "isHeaderSafe s \<longleftrightarrow> (\<forall>c \<in> set s. c \<le> 0x7F)"
  by (simp add: isHeaderSafe_def)

lemma request_headers_Authorization:
  "map_of (request_headers this) (js ''Authorization'') =
     (if isHeaderSafe (currentApiKey this) then Some (js ''Bearer '' @ currentApiKey this) else None)"
  by (simp add: request_headers_def js_def)

lemma sendMessageStream_generic_calls:
  "chat this = None \<Longrightarrow>
   snd (sendMessageStream p send fetch this message history) =
     [Fetch (stream_request this message history)]"
  by (simp add: sendMessageStream_def Let_def)

lemma translateText_generic_calls:
  "ai this = None \<Longrightarrow>
   snd (translateText gen fetch this input lang) =
     [Fetch (translate_request this (translate_prompt input lang))]"
  by (simp add: translateText_def Let_def)

lemma headers_stream_request [simp]:
  "headers (stream_request this message history) = request_headers this"
  by (simp add: stream_request_def)

lemma headers_translate_request [simp]:
  "headers (translate_request this prompt) = request_headers this"
  by (simp add: translate_request_def)

text \<open>
  Claim C6. \<^verbatim>\<open>isHeaderSafe(s)\<close> holds exactly when every code unit of \<open>s\<close> is at most
  0x7F, so it holds of the empty string. The generic streaming call and the generic
  translation call each make one \<^verbatim>\<open>fetch\<close>, whose headers carry
  \<^verbatim>\<open>Authorization: Bearer <credential>\<close> exactly when \<^verbatim>\<open>isHeaderSafe\<close> holds of the session
  credential, and no \<^verbatim>\<open>Authorization\<close> header otherwise. \<^verbatim>\<open>isHeaderSafe("sk-abc123")\<close> is
  true, and \<^verbatim>\<open>isHeaderSafe\<close> of the two code units U+5BC6 U+94A5 is false.
\<close>

theorem isHeaderSafe_guards_authorization:
  "(isHeaderSafe s \<longleftrightarrow> (\<forall>c \<in> set s. c \<le> 0x7F)) \<and>
   isHeaderSafe [] \<and>
   (chat this = None \<longrightarrow>
      (\<exists>req. snd (sendMessageStream p send fetch this message history) = [Fetch req] \<and>
             map_of (headers req) (js ''Authorization'') =
               (if isHeaderSafe (currentApiKey this)
                then Some (js ''Bearer '' @ currentApiKey this) else None))) \<and>
   (ai this = None \<longrightarrow>
      (\<exists>req. snd (translateText gen fetch this input lang) = [Fetch req] \<and>
             map_of (headers req) (js ''Authorization'') =
               (if isHeaderSafe (currentApiKey this)
                then Some (js ''Bearer '' @ currentApiKey this) else None))) \<and>
   isHeaderSafe (js ''sk-abc123'') \<and>
   \<not> isHeaderSafe [0x5BC6, 0x94A5]"
proof -
  have a: "isHeaderSafe (js ''sk-abc123'')" by (simp add: isHeaderSafe_def js_def)
  have b: "\<not> isHeaderSafe [0x5BC6, 0x94A5]" by (simp add: isHeaderSafe_def)
  have c: "isHeaderSafe []" by (simp add: isHeaderSafe_def)
  show ?thesis
    using a b c
    by (simp add: isHeaderSafe_iff sendMessageStream_generic_calls translateText_generic_calls
          request_headers_Authorization)
qed

theorem isHeaderSafe_guards_authorization_witness:
  "chat keyed_service = None \<and> ai keyed_service = None \<and>
   isHeaderSafe (currentApiKey keyed_service) \<and>
   (\<exists>req. snd (sendMessageStream no_parse failing_chat_send offline_fetch keyed_service
                  (js ''hi'') []) = [Fetch req] \<and>
          map_of (headers req) (js ''Authorization'') = Some (js ''Bearer sk-abc123'')) \<and>
   (\<exists>req. snd (translateText failing_generateContent offline_fetch keyed_service
                  (js ''hi'') (js ''en'')) = [Fetch req] \<and>
          map_of (headers req) (js ''Authorization'') = Some (js ''Bearer sk-abc123''))"
proof -
  have k: "currentApiKey keyed_service = js ''sk-abc123''"
    by (simp add: keyed_service_def)
  have c: "chat keyed_service = None" and a: "ai keyed_service = None"
    by (simp_all add: keyed_service_def new_AIService_def)
  have s: "isHeaderSafe (js ''sk-abc123'')" by (simp add: isHeaderSafe_def js_def)
  have j: "js ''Bearer '' @ js ''sk-abc123'' = js ''Bearer sk-abc123''" by (simp add: js_def)
  show ?thesis
    using isHeaderSafe_guards_authorization
      [where s = "js ''sk-abc123''" and this = keyed_service and p = no_parse
         and send = failing_chat_send and fetch = offline_fetch and message = "js ''hi''"
         and history = "[]" and gen = failing_generateContent and input = "js ''hi''"
         and lang = "js ''en''"]
    by (simp add: k c a s j)
qed

section \<open>GenericStreamClient: independence of the chunk boundaries\<close>

lemma run_decoder_append:
  "run_decoder d (a @ b) =
     (let (d1, out1) = run_decoder d a; (d2, out2) = run_decoder d1 b in (d2, out1 @ out2))"
  by (induction a arbitrary: d) (auto simp: Let_def split: prod.splits)

lemma serialize_append:
  "serialize seen (a @ b) =
     (let (s1, t1) = serialize seen a; (s2, t2) = serialize s1 b in (s2, t1 @ t2))"
  by (induction a arbitrary: seen) (auto simp: Let_def split: prod.splits)

text \<open>Decoding a chunk in two reads gives the text, and leaves the decoder, of one read.\<close>

lemma decode_append:
  "decode td (a @ b) =
     (let (td1, t1) = decode td a; (td2, t2) = decode td1 b in (td2, t1 @ t2))"
  by (auto simp: decode_def run_decoder_append serialize_append Let_def split: prod.splits)

lemma decode_Nil [simp]: "decode td [] = (td, [])"
  by (simp add: decode_def)

text \<open>
  The decoder at work: a three-byte character cut after its second byte; a leading byte
  order mark; a character outside the basic plane; malformed bytes.
\<close>

lemma decode_split_character:
  "snd (decode new_TextDecoder [0xE4, 0xBD]) = [] \<and>
   snd (decode (fst (decode new_TextDecoder [0xE4, 0xBD])) [0xA0, 0x0A]) = [0x4F60, 0x0A] \<and>
   snd (decode new_TextDecoder [0xE4, 0xBD, 0xA0, 0x0A]) = [0x4F60, 0x0A]"
  by (simp add: decode_def new_TextDecoder_def new_utf8_decoder_def utf8_handler_def
        lead_byte_def utf16_def)

lemma decode_examples:
  "snd (decode new_TextDecoder [0xEF, 0xBB, 0xBF, 0x41]) = [0x41] \<and>
   snd (decode new_TextDecoder [0xF0, 0x9F, 0x98, 0x80]) = [0xD83D, 0xDE00] \<and>
   snd (decode new_TextDecoder [0xE5, 0x41, 0xFF]) = [0xFFFD, 0x41, 0xFFFD]"
  by (simp add: decode_def new_TextDecoder_def new_utf8_decoder_def utf8_handler_def
        lead_byte_def utf16_def)

text \<open>
  The loop invariant: with no line feed in the buffer, the loop yields what the complete
  lines of the buffer followed by the text of all remaining bytes yield.
\<close>

lemma read_loop_lines:
  "0x0A \<notin> set buffer \<Longrightarrow>
   read_loop p td buffer cs f =
     (concat (map (process_line p) (complete_lines (buffer @ snd (decode td (concat cs))))), f)"
proof (induction cs arbitrary: td buffer)
  case Nil
  then show ?case by (simp add: complete_lines_def split_no_sep)
next
  case (Cons c cs)
  obtain td1 t1 where d1: "decode td c = (td1, t1)" by (cases "decode td c")
  obtain td2 t2 where d2: "decode td1 (concat cs) = (td2, t2)" by (cases "decode td1 (concat cs)")
  have all: "snd (decode td (c @ concat cs)) = t1 @ t2"
    by (simp add: decode_append d1 d2)
  let ?b = "last (split (buffer @ t1) [0x0A])"
  have nb: "0x0A \<notin> set ?b" by (rule last_split_no_sep)
  have ih: "read_loop p td1 ?b cs f =
     (concat (map (process_line p) (complete_lines (?b @ t2))), f)"
    using Cons.IH[OF nb, of td1] by (simp add: d2)
  have sp: "complete_lines ((buffer @ t1) @ t2) =
      butlast (split (buffer @ t1) [0x0A]) @ complete_lines (?b @ t2)"
    unfolding complete_lines_def
    by (subst split_append) (simp add: butlast_append split_def)
  show ?case
    using ih sp by (simp add: d1 all split_def Let_def)
qed

lemma read_loop_unsplit:
  "read_loop p new_TextDecoder [] cs f = read_loop p new_TextDecoder [] [concat cs] f"
  by (simp add: read_loop_lines del: read_loop.simps)

lemma parse_stream_unsplit:
  "parse_stream p (response_body (unsplit resp)) = parse_stream p (response_body resp)"
  by (cases "response_body resp")
     (simp_all add: parse_stream_def unsplit_def read_loop_unsplit[symmetric] del: read_loop.simps)

text \<open>
  Claim C1. Whatever bytes the response body delivers and however they are cut into read
  chunks (inside a multi-byte character, inside a frame, with empty chunks), the read loop
  yields the same values in the same order, and ends the same way, as on the one chunk
  that holds all the bytes; hence \<^verbatim>\<open>sendMessageStream\<close>, in every state and against
  every server, yields the same and makes the same calls when each body arrives unsplit.
\<close>

theorem stream_chunking_independent:
  "read_loop p new_TextDecoder [] cs f = read_loop p new_TextDecoder [] [concat cs] f \<and>
   parse_stream p (Some \<lparr>chunks = cs, failure = f\<rparr>) =
     parse_stream p (Some \<lparr>chunks = [concat cs], failure = f\<rparr>) \<and>
   sendMessageStream p send (deliver_unsplit fetch) this message history =
     sendMessageStream p send fetch this message history"
proof -
  have 1: "read_loop p new_TextDecoder [] cs f = read_loop p new_TextDecoder [] [concat cs] f"
    by (rule read_loop_unsplit)
  have 2: "parse_stream p (Some \<lparr>chunks = cs, failure = f\<rparr>) =
     parse_stream p (Some \<lparr>chunks = [concat cs], failure = f\<rparr>)"
    using 1 by (simp add: parse_stream_def del: read_loop.simps)
  have 3: "sendMessageStream p send (deliver_unsplit fetch) this message history =
     sendMessageStream p send fetch this message history"
  proof (cases "chat this")
    case None
    show ?thesis
    proof (cases "fetch (stream_request this message history)")
      case (Inl e)
      then show ?thesis by (simp add: sendMessageStream_def deliver_unsplit_def None Let_def)
    next
      case (Inr resp)
      have o: "ok (unsplit resp) = ok resp" by (simp add: unsplit_def)
      have st: "status_message (unsplit resp) = status_message resp"
        by (simp add: status_message_def unsplit_def)
      have rj: "response_json (unsplit resp) = response_json resp"
        by (simp add: unsplit_def)
      have e: "response_error (unsplit resp) = response_error resp"
        unfolding response_error_def st rj ..
      show ?thesis
        using Inr
        by (simp add: sendMessageStream_def deliver_unsplit_def None Let_def o e
              parse_stream_unsplit)
    qed
  next
    case (Some session)
    then show ?thesis by (simp add: sendMessageStream_def)
  qed
  show ?thesis using 1 2 3 by blast
qed

section \<open>GenericStreamClient: the lines\<close>

lemma opt_member_bind: "opt_member x name = Option.bind x (\<lambda>v. member v name)"
  by (simp add: opt_member_def split: option.splits json.splits)

lemma first_choice_field:
  "(case first_choice data of Inl e \<Rightarrow> None | Inr c \<Rightarrow> opt_member (opt_member c a) b) =
     choice_field data a b"
  by (cases data)
     (simp_all add: first_choice_def choice_field_def opt_member_bind
        split: option.splits json.splits)

lemma delta_content_field:
  "(case delta_content parsed of Inl e \<Rightarrow> None | Inr c \<Rightarrow> c) =
     choice_field parsed (js ''delta'') (js ''content'')"
  using first_choice_field[where data = parsed and a = "js ''delta''" and b = "js ''content''"]
  by (simp add: delta_content_def split: sum.splits)

lemma process_line_eq:
  "process_line p line =
     (let cleaned = trim (replace_data_prefix line) in
      if cleaned = [] \<or> cleaned = js ''[DONE]'' then []
      else (case p cleaned of
              None \<Rightarrow> []
            | Some parsed \<Rightarrow>
                (case choice_field parsed (js ''delta'') (js ''content'') of
                   None \<Rightarrow> []
                 | Some v \<Rightarrow> if truthy v then [v] else [])))"
proof (cases "p (trim (replace_data_prefix line))")
  case None
  then show ?thesis by (simp add: process_line_def Let_def)
next
  case (Some parsed)
  show ?thesis
    using Some delta_content_field[of parsed]
    by (cases "delta_content parsed")
       (auto simp: process_line_def Let_def split: option.splits)
qed

lemma split_lines:
  "list_all (\<lambda>l. c \<notin> set l) ls \<Longrightarrow> split (concat (map (\<lambda>l. l @ [c]) ls)) [c] = ls @ [[]]"
proof (induction ls)
  case Nil
  then show ?case by (simp add: split_def)
next
  case (Cons l ls)
  then have l: "c \<notin> set l" and ls: "list_all (\<lambda>l. c \<notin> set l) ls" by simp_all
  have "split_from [c] [] (l @ c # concat (map (\<lambda>l. l @ [c]) ls)) =
        split_from [c] l (c # concat (map (\<lambda>l. l @ [c]) ls))"
    using split_from_single_no_sep[OF l, of "[]"] by simp
  also have "\<dots> = l # split_from [c] [] (concat (map (\<lambda>l. l @ [c]) ls))"
    by (simp add: split_from_single_Cons)
  finally show ?case using Cons.IH[OF ls] by (simp add: split_def)
qed

lemma read_loop_of_lines:
  assumes "list_all (\<lambda>l. 0x0A \<notin> set l) ls"
    and "snd (decode new_TextDecoder (concat cs)) = concat (map (\<lambda>l. l @ [0x0A]) ls)"
  shows "read_loop p new_TextDecoder [] cs f = (concat (map (process_line p) ls), f)"
  using assms split_lines[of "0x0A" ls]
  by (simp add: read_loop_lines complete_lines_def del: read_loop.simps)

lemma replace_data_prefix_strip: "replace_data_prefix (js ''data: '' @ rest) = rest"
  by (simp add: replace_data_prefix_def js_def)


text \<open>
  Claim C2. Of every complete line the prefix \<^verbatim>\<open>data: \<close> is removed once when it leads the
  line, and the rest is trimmed. A line that is then empty or \<^verbatim>\<open>[DONE]\<close> yields nothing;
  a line \<^verbatim>\<open>JSON.parse\<close> rejects yields nothing; a line that parses yields its field
  \<^verbatim>\<open>choices[0].delta.content\<close> when that field is present and truthy (for a string: not
  empty), and nothing otherwise. The loop goes on with the following lines: a stream
  whose text is newline-terminated lines yields what the lines yield one after the other,
  so a line that fails to parse between two others takes nothing from what they yield.
\<close>

theorem process_line_behaviour:
  "process_line p line =
     (let cleaned = trim (replace_data_prefix line) in
      if cleaned = [] \<or> cleaned = js ''[DONE]'' then []
      else (case p cleaned of
              None \<Rightarrow> []
            | Some parsed \<Rightarrow>
                (case choice_field parsed (js ''delta'') (js ''content'') of
                   None \<Rightarrow> []
                 | Some v \<Rightarrow> if truthy v then [v] else []))) \<and>
   replace_data_prefix (js ''data: '' @ rest) = rest \<and>
   (\<not> prefix (js ''data: '') line \<longrightarrow> replace_data_prefix line = line) \<and>
   (p (trim (replace_data_prefix line)) = Some parsed \<and>
    trim (replace_data_prefix line) \<noteq> [] \<and> trim (replace_data_prefix line) \<noteq> js ''[DONE]'' \<and>
    choice_field parsed (js ''delta'') (js ''content'') = Some (JStr t) \<longrightarrow>
      process_line p line = (if t \<noteq> [] then [JStr t] else [])) \<and>
   (list_all (\<lambda>l. 0x0A \<notin> set l) ls \<and>
    snd (decode new_TextDecoder (concat cs)) = concat (map (\<lambda>l. l @ [0x0A]) ls) \<longrightarrow>
      read_loop p new_TextDecoder [] cs f = (concat (map (process_line p) ls), f)) \<and>
   (list_all (\<lambda>l. 0x0A \<notin> set l) (before @ [bad] @ after) \<and>
    snd (decode new_TextDecoder (concat cs')) =
      concat (map (\<lambda>l. l @ [0x0A]) (before @ [bad] @ after)) \<and>
    p (trim (replace_data_prefix bad)) = None \<longrightarrow>
      read_loop p new_TextDecoder [] cs' f =
        (concat (map (process_line p) before) @ concat (map (process_line p) after), f))"
proof -
  have bad: "process_line p bad = []" if "p (trim (replace_data_prefix bad)) = None"
    using that by (simp add: process_line_def Let_def)
  have str: "process_line p line = (if t \<noteq> [] then [JStr t] else [])"
    if "p (trim (replace_data_prefix line)) = Some parsed"
      "trim (replace_data_prefix line) \<noteq> []" "trim (replace_data_prefix line) \<noteq> js ''[DONE]''"
      "choice_field parsed (js ''delta'') (js ''content'') = Some (JStr t)"
    using that by (subst process_line_eq) (simp add: Let_def)
  have pre: "replace_data_prefix line = line" if "\<not> prefix (js ''data: '') line"
    using that by (simp add: replace_data_prefix_def)
  have mid: "read_loop p new_TextDecoder [] cs' f =
        (concat (map (process_line p) before) @ concat (map (process_line p) after), f)"
    if "list_all (\<lambda>l. 0x0A \<notin> set l) (before @ [bad] @ after)"
      "snd (decode new_TextDecoder (concat cs')) =
         concat (map (\<lambda>l. l @ [0x0A]) (before @ [bad] @ after))"
      "p (trim (replace_data_prefix bad)) = None"
    using read_loop_of_lines[OF that(1) that(2), of p f] bad[OF that(3)]
    by (simp del: read_loop.simps)
  show ?thesis
    using process_line_eq[of p line] replace_data_prefix_strip[of rest] pre str
      read_loop_of_lines[of ls cs p f] mid
    by blast
qed

lemma sample_decoded:
  "snd (decode new_TextDecoder sample_bytes) = concat (map (\<lambda>l. l @ [0x0A]) sample_lines)"
  by (simp add: decode_def new_TextDecoder_def new_utf8_decoder_def utf8_handler_def
        lead_byte_def utf16_def sample_bytes_def ascii_bytes_def sample_lines_def frame_hi_def
        frame_there_def js_def)

lemma sample_lines_no_line_feed: "list_all (\<lambda>l. 0x0A \<notin> set l) sample_lines"
  by (simp add: sample_lines_def frame_hi_def frame_there_def js_def)

lemma sample_malformed: "sample_parse (trim (replace_data_prefix (js ''data: not-json''))) = None"
  by (simp add: sample_parse_def replace_data_prefix_def trim_def is_white_space_def
        frame_hi_def frame_there_def js_def)

lemma sample_first: "process_line sample_parse (js ''data: '' @ frame_hi) = [JStr (js ''Hi'')]"
  by (simp add: process_line_def sample_parse_def frame_hi_def frame_there_def js_def
        replace_data_prefix_def trim_def is_white_space_def delta_frame_def delta_content_def
        first_choice_def opt_member_def)

lemma sample_last:
  "process_line sample_parse (js ''data: '' @ frame_there) = [JStr (js '' there'')]"
  by (simp add: process_line_def sample_parse_def frame_hi_def frame_there_def js_def
        replace_data_prefix_def trim_def is_white_space_def delta_frame_def delta_content_def
        first_choice_def opt_member_def)

theorem process_line_behaviour_witness:
  "list_all (\<lambda>l. 0x0A \<notin> set l) sample_lines \<and>
   snd (decode new_TextDecoder (concat sample_chunks)) =
     concat (map (\<lambda>l. l @ [0x0A]) sample_lines) \<and>
   sample_parse (trim (replace_data_prefix (js ''data: not-json''))) = None \<and>
   read_loop sample_parse new_TextDecoder [] sample_chunks None =
     ([JStr (js ''Hi''), JStr (js '' there'')], None)"
proof -
  have c: "concat sample_chunks = sample_bytes" by (simp add: sample_chunks_def)
  have l: "sample_lines = [js ''data: '' @ frame_hi] @ [js ''data: not-json''] @
             [js ''data: '' @ frame_there]"
    by (simp add: sample_lines_def)
  have h1: "list_all (\<lambda>l. 0x0A \<notin> set l)
              ([js ''data: '' @ frame_hi] @ [js ''data: not-json''] @ [js ''data: '' @ frame_there])"
    using sample_lines_no_line_feed unfolding l .
  have h2: "snd (decode new_TextDecoder (concat sample_chunks)) =
      concat (map (\<lambda>l. l @ [0x0A])
        ([js ''data: '' @ frame_hi] @ [js ''data: not-json''] @ [js ''data: '' @ frame_there]))"
    using sample_decoded unfolding l c .
  have "read_loop sample_parse new_TextDecoder [] sample_chunks None =
      (concat (map (process_line sample_parse) [js ''data: '' @ frame_hi]) @
       concat (map (process_line sample_parse) [js ''data: '' @ frame_there]), None)"
    using process_line_behaviour
      [where p = sample_parse and before = "[js ''data: '' @ frame_hi]"
         and bad = "js ''data: not-json''" and after = "[js ''data: '' @ frame_there]"
         and cs' = sample_chunks and f = None]
      h1 h2 sample_malformed
    by blast
  then have "read_loop sample_parse new_TextDecoder [] sample_chunks None =
     ([JStr (js ''Hi''), JStr (js '' there'')], None)"
    by (simp add: sample_first sample_last del: read_loop.simps)
  then show ?thesis
    using sample_lines_no_line_feed sample_decoded sample_malformed c by simp
qed

section \<open>Translator: properties\<close>

lemma trimmed_or_failed_cases:
  "trimmed_or_failed x = TRANSLATION_FAILED \<or>
   (\<exists>raw. x = Some raw \<and> trimmed_or_failed x = trim raw \<and> trim raw \<noteq> [])"
  by (cases x) (simp_all add: trimmed_or_failed_def)

lemma message_content_of_eq:
  "message_content_of data =
     (case first_choice data of
        Inl e \<Rightarrow> Inl e
      | Inr choice \<Rightarrow>
          (case choice_field data (js ''message'') (js ''content'') of
             None \<Rightarrow> Inr TRANSLATION_FAILED
           | Some JNull \<Rightarrow> Inr TRANSLATION_FAILED
           | Some (JStr s) \<Rightarrow> Inr (trimmed_or_failed (Some s))
           | Some v \<Rightarrow> Inl TypeError))"
  using first_choice_field[where data = data and a = "js ''message''" and b = "js ''content''"]
  by (cases "first_choice data")
     (simp_all add: message_content_of_def trimmed_or_failed_def split: option.splits json.splits)

lemma choice_field_first_choice:
  "choice_field data a b = Some v \<Longrightarrow> \<exists>choice. first_choice data = Inr choice"
  using first_choice_field[where data = data and a = a and b = b]
  by (cases "first_choice data") simp_all

lemma message_content_of_cases:
  "(\<exists>e. message_content_of data = Inl e) \<or>
   message_content_of data = Inr TRANSLATION_FAILED \<or>
   (\<exists>raw. choice_field data (js ''message'') (js ''content'') = Some (JStr raw) \<and>
          message_content_of data = Inr (trim raw) \<and> trim raw \<noteq> [])"
proof (cases "first_choice data")
  case (Inl e)
  then show ?thesis by (simp add: message_content_of_eq)
next
  case (Inr choice)
  show ?thesis
  proof (cases "choice_field data (js ''message'') (js ''content'')")
    case None
    with Inr show ?thesis by (simp add: message_content_of_eq)
  next
    case (Some v)
    with Inr show ?thesis
      using trimmed_or_failed_cases[of "Some s" for s]
      by (cases v) (auto simp: message_content_of_eq)
  qed
qed

lemma translateText_vendor:
  "ai this = Some client \<Longrightarrow>
   translateText gen fetch this input lang =
     ((case gen client GEMINI_FLASH (translate_prompt input lang) of
         Inl e \<Rightarrow> Inr TRANSLATION_FAILED
       | Inr response_text \<Rightarrow> Inr (trimmed_or_failed response_text)),
      [GenerateContent client GEMINI_FLASH (translate_prompt input lang)])"
  by (simp add: translateText_def Let_def try_catch_def split: sum.splits)

lemma translateText_generic:
  "ai this = None \<Longrightarrow>
   translateText gen fetch this input lang =
     ((case fetch (translate_request this (translate_prompt input lang)) of
         Inl e \<Rightarrow> Inr TRANSLATION_UNAVAILABLE
       | Inr resp \<Rightarrow>
           if \<not> ok resp then Inr TRANSLATION_UNAVAILABLE
           else (case response_json resp of
                   Inl e \<Rightarrow> Inr TRANSLATION_UNAVAILABLE
                 | Inr data \<Rightarrow>
                     (case message_content_of data of
                        Inl e \<Rightarrow> Inr TRANSLATION_UNAVAILABLE
                      | Inr r \<Rightarrow> Inr r))),
      [Fetch (translate_request this (translate_prompt input lang))])"
  by (simp add: translateText_def Let_def try_catch_def split: sum.splits)

text \<open>
  Claim C4. Whatever the text, the language code, the state of the service and the
  behaviour of the vendor SDK and of the server (a result, an empty result, a thrown
  error, a response that is not ok, a body that is not JSON or has not the expected
  shape), \<^verbatim>\<open>translateText\<close> returns: its result is never a thrown error. The string it
  returns is one of the two sentinels, or the non-empty trimmed text that the configured
  backend delivered.
\<close>

theorem translateText_total:
  "\<exists>r. fst (translateText gen fetch this input lang) = Inr r \<and>
       (r = TRANSLATION_FAILED \<or> r = TRANSLATION_UNAVAILABLE \<or>
        (\<exists>raw. backend_translation gen fetch this input lang = Some raw \<and>
               r = trim raw \<and> r \<noteq> []))"
proof (cases "ai this")
  case (Some client)
  show ?thesis
  proof (cases "gen client GEMINI_FLASH (translate_prompt input lang)")
    case (Inl e)
    then show ?thesis by (simp add: translateText_vendor[OF Some])
  next
    case (Inr response_text)
    then show ?thesis
      using trimmed_or_failed_cases[of response_text]
      by (auto simp: translateText_vendor[OF Some] backend_translation_def Some)
  qed
next
  case None
  show ?thesis
  proof (cases "fetch (translate_request this (translate_prompt input lang))")
    case (Inl e)
    then show ?thesis by (simp add: translateText_generic[OF None])
  next
    case (Inr resp)
    show ?thesis
    proof (cases "ok resp")
      case False
      with Inr show ?thesis by (simp add: translateText_generic[OF None])
    next
      case True
      show ?thesis
      proof (cases "response_json resp")
        case (Inl e)
        with Inr True show ?thesis by (simp add: translateText_generic[OF None])
      next
        case data: (Inr data)
        show ?thesis
          using message_content_of_cases[of data] Inr True data
          by (auto simp: translateText_generic[OF None] backend_translation_def None)
      qed
    qed
  qed
qed


lemma sentinels_differ: "TRANSLATION_FAILED \<noteq> TRANSLATION_UNAVAILABLE"
  by (simp add: TRANSLATION_FAILED_def TRANSLATION_UNAVAILABLE_def)

lemma ai_vendor_service: "ai vendor_service = Some \<lparr>client_apiKey = js ''sk-abc123''\<rparr>"
  by (simp add: vendor_service_def initChat_def Let_def vendor_config_def generic_config_def
        replace_trailing_slash_def VENDOR_DOMAIN_def js_def trim_def is_white_space_def)

lemma ai_generic_service: "ai generic_service = None"
  by (simp add: generic_service_def initChat_def Let_def generic_config_def
        replace_trailing_slash_def VENDOR_DOMAIN_def js_def)

lemma currentModel_vendor_service: "currentModel vendor_service = js ''gpt-4o''"
  by (simp add: vendor_service_def initChat_def Let_def vendor_config_def generic_config_def)

lemma currentModel_generic_service: "currentModel generic_service = js ''gpt-4o''"
  by (simp add: generic_service_def initChat_def Let_def generic_config_def)

text \<open>
  Claim C5, as stated, fails: with a vendor client configured, a vendor call that throws
  and a server that cannot be reached, the result is the first sentinel, not the second.
  The generic path is not tried once a vendor client is set.
\<close>

theorem translateText_no_fallback_counterexample:
  "ai vendor_service \<noteq> None \<and>
   failing_generateContent \<lparr>client_apiKey = js ''sk-abc123''\<rparr> GEMINI_FLASH
     (translate_prompt (js ''hi'') (js ''en'')) = Inl (Thrown (js ''quota exceeded'')) \<and>
   offline_fetch (translate_request vendor_service (translate_prompt (js ''hi'') (js ''en''))) =
     Inl (Thrown (js ''Failed to fetch'')) \<and>
   fst (translateText failing_generateContent offline_fetch vendor_service (js ''hi'') (js ''en''))
     = Inr TRANSLATION_FAILED \<and>
   fst (translateText failing_generateContent offline_fetch vendor_service (js ''hi'') (js ''en''))
     \<noteq> Inr TRANSLATION_UNAVAILABLE"
  by (simp add: translateText_vendor[OF ai_vendor_service] ai_vendor_service
        failing_generateContent_def offline_fetch_def sentinels_differ)

lemma first_choice_readable:
  "member data (js ''choices'') = Some choices \<Longrightarrow> choices \<noteq> JNull \<Longrightarrow>
   first_choice data = Inr (first choices)"
  by (cases data; cases choices) (simp_all add: first_choice_def)

lemma first_choice_throws:
  "data = JNull \<or> member data (js ''choices'') = None \<or>
   member data (js ''choices'') = Some JNull \<Longrightarrow> first_choice data = Inl TypeError"
  by (cases data) (auto simp: first_choice_def)

text \<open>
  Claim C5, amended. With a vendor client configured: when its call fails,
  \<^verbatim>\<open>translateText\<close> returns the first sentinel after that one call, whatever the generic
  path would do; when its call succeeds with a text that is absent or empty after
  trimming, it returns the first sentinel. With no vendor client configured it returns
  the second sentinel when the fetch throws, the response is not ok, the body is not
  JSON, the read \<^verbatim>\<open>data.choices[0]\<close> throws (the body is \<^verbatim>\<open>null\<close>, or \<^verbatim>\<open>choices\<close> is
  absent or \<^verbatim>\<open>null\<close>), or the content is neither a string nor \<^verbatim>\<open>null\<close> nor absent; it
  returns the first sentinel when \<^verbatim>\<open>data.choices[0]\<close> can be read and the content
  \<^verbatim>\<open>choices[0].message.content\<close> is absent, \<^verbatim>\<open>null\<close>, or a string empty after trimming.
\<close>

theorem translateText_sentinels:
  "(ai this = Some client \<and>
    gen client GEMINI_FLASH (translate_prompt input lang) = Inl e \<longrightarrow>
      translateText gen fetch this input lang =
        (Inr TRANSLATION_FAILED,
         [GenerateContent client GEMINI_FLASH (translate_prompt input lang)])) \<and>
   (ai this = Some client \<and>
    (gen client GEMINI_FLASH (translate_prompt input lang) = Inr None \<or>
     gen client GEMINI_FLASH (translate_prompt input lang) = Inr (Some raw) \<and> trim raw = []) \<longrightarrow>
      fst (translateText gen fetch this input lang) = Inr TRANSLATION_FAILED) \<and>
   (ai this = None \<and>
    (fetch (translate_request this (translate_prompt input lang)) = Inl e \<or>
     fetch (translate_request this (translate_prompt input lang)) = Inr resp \<and>
       (\<not> ok resp \<or> response_json resp = Inl e)) \<longrightarrow>
      fst (translateText gen fetch this input lang) = Inr TRANSLATION_UNAVAILABLE) \<and>
   (ai this = None \<and>
    fetch (translate_request this (translate_prompt input lang)) = Inr resp \<and> ok resp \<and>
    response_json resp = Inr data \<and>
    (data = JNull \<or> member data (js ''choices'') = None \<or>
     member data (js ''choices'') = Some JNull) \<longrightarrow>
      fst (translateText gen fetch this input lang) = Inr TRANSLATION_UNAVAILABLE) \<and>
   (ai this = None \<and>
    fetch (translate_request this (translate_prompt input lang)) = Inr resp \<and> ok resp \<and>
    response_json resp = Inr data \<and>
    member data (js ''choices'') = Some choices \<and> choices \<noteq> JNull \<and>
    choice_field data (js ''message'') (js ''content'') = Some v \<and>
    v \<noteq> JNull \<and> (\<forall>s. v \<noteq> JStr s) \<longrightarrow>
      fst (translateText gen fetch this input lang) = Inr TRANSLATION_UNAVAILABLE) \<and>
   (ai this = None \<and>
    fetch (translate_request this (translate_prompt input lang)) = Inr resp \<and> ok resp \<and>
    response_json resp = Inr data \<and>
    member data (js ''choices'') = Some choices \<and> choices \<noteq> JNull \<and>
    (choice_field data (js ''message'') (js ''content'') = None \<or>
     choice_field data (js ''message'') (js ''content'') = Some JNull \<or>
     choice_field data (js ''message'') (js ''content'') = Some (JStr raw) \<and> trim raw = []) \<longrightarrow>
      fst (translateText gen fetch this input lang) = Inr TRANSLATION_FAILED)"
proof -
  have 1: "translateText gen fetch this input lang =
        (Inr TRANSLATION_FAILED,
         [GenerateContent client GEMINI_FLASH (translate_prompt input lang)])"
    if "ai this = Some client" "gen client GEMINI_FLASH (translate_prompt input lang) = Inl e"
    using that by (simp add: translateText_vendor)
  have 2: "fst (translateText gen fetch this input lang) = Inr TRANSLATION_FAILED"
    if "ai this = Some client"
      "gen client GEMINI_FLASH (translate_prompt input lang) = Inr None \<or>
       gen client GEMINI_FLASH (translate_prompt input lang) = Inr (Some raw) \<and> trim raw = []"
    using that by (auto simp: translateText_vendor trimmed_or_failed_def)
  have 3: "fst (translateText gen fetch this input lang) = Inr TRANSLATION_UNAVAILABLE"
    if "ai this = None"
      "fetch (translate_request this (translate_prompt input lang)) = Inl e \<or>
       fetch (translate_request this (translate_prompt input lang)) = Inr resp \<and>
         (\<not> ok resp \<or> response_json resp = Inl e)"
    using that by (auto simp: translateText_generic)
  have 4: "fst (translateText gen fetch this input lang) = Inr TRANSLATION_UNAVAILABLE"
    if h: "ai this = None"
      "fetch (translate_request this (translate_prompt input lang)) = Inr resp" "ok resp"
      "response_json resp = Inr data"
      and d: "data = JNull \<or> member data (js ''choices'') = None \<or>
         member data (js ''choices'') = Some JNull"
  proof -
    have "message_content_of data = Inl TypeError"
      using first_choice_throws[OF d] by (simp add: message_content_of_eq)
    then show ?thesis using h by (simp add: translateText_generic)
  qed
  have 5: "fst (translateText gen fetch this input lang) = Inr TRANSLATION_UNAVAILABLE"
    if h: "ai this = None"
      "fetch (translate_request this (translate_prompt input lang)) = Inr resp" "ok resp"
      "response_json resp = Inr data"
      and c: "member data (js ''choices'') = Some choices" "choices \<noteq> JNull"
      and v: "choice_field data (js ''message'') (js ''content'') = Some v"
        "v \<noteq> JNull" "\<forall>s. v \<noteq> JStr s"
  proof -
    have "message_content_of data = Inl TypeError"
      using first_choice_readable[OF c] v
      by (cases v) (simp_all add: message_content_of_eq)
    then show ?thesis using h by (simp add: translateText_generic)
  qed
  have 6: "fst (translateText gen fetch this input lang) = Inr TRANSLATION_FAILED"
    if h: "ai this = None"
      "fetch (translate_request this (translate_prompt input lang)) = Inr resp" "ok resp"
      "response_json resp = Inr data"
      and c: "member data (js ''choices'') = Some choices" "choices \<noteq> JNull"
      and v: "choice_field data (js ''message'') (js ''content'') = None \<or>
         choice_field data (js ''message'') (js ''content'') = Some JNull \<or>
         choice_field data (js ''message'') (js ''content'') = Some (JStr raw) \<and> trim raw = []"
  proof -
    have "message_content_of data = Inr TRANSLATION_FAILED"
      using first_choice_readable[OF c] v
      by (auto simp: message_content_of_eq trimmed_or_failed_def)
    then show ?thesis using h by (simp add: translateText_generic)
  qed
  show ?thesis using 1 2 3 4 5 6 by blast
qed

theorem translateText_sentinels_witness:
  "ai vendor_service = Some \<lparr>client_apiKey = js ''sk-abc123''\<rparr> \<and>
   translateText failing_generateContent null_body_fetch vendor_service (js ''hi'') (js ''en'') =
     (Inr TRANSLATION_FAILED,
      [GenerateContent \<lparr>client_apiKey = js ''sk-abc123''\<rparr> GEMINI_FLASH
         (translate_prompt (js ''hi'') (js ''en''))]) \<and>
   ai generic_service = None \<and>
   fst (translateText failing_generateContent null_body_fetch generic_service (js ''hi'') (js ''en''))
     = Inr TRANSLATION_UNAVAILABLE \<and>
   ok empty_object_response \<and> response_json empty_object_response = Inr (JObj []) \<and>
   member (JObj []) (js ''choices'') = None \<and>
   fst (translateText failing_generateContent empty_object_fetch generic_service (js ''hi'') (js ''en''))
     = Inr TRANSLATION_UNAVAILABLE \<and>
   ok empty_choices_response \<and>
   response_json empty_choices_response = Inr (JObj [(js ''choices'', JArr [])]) \<and>
   member (JObj [(js ''choices'', JArr [])]) (js ''choices'') = Some (JArr []) \<and>
   choice_field (JObj [(js ''choices'', JArr [])]) (js ''message'') (js ''content'') = None \<and>
   fst (translateText failing_generateContent empty_choices_fetch generic_service (js ''hi'') (js ''en''))
     = Inr TRANSLATION_FAILED"
proof -
  let ?req = "translate_request generic_service (translate_prompt (js ''hi'') (js ''en''))"
  have g: "failing_generateContent \<lparr>client_apiKey = js ''sk-abc123''\<rparr> GEMINI_FLASH
     (translate_prompt (js ''hi'') (js ''en'')) = Inl (Thrown (js ''quota exceeded''))"
    by (simp add: failing_generateContent_def)
  have f: "null_body_fetch ?req = Inr null_body_response" by (simp add: null_body_fetch_def)
  have n: "\<not> ok null_body_response" by (simp add: null_body_response_def)
  have fo: "empty_object_fetch ?req = Inr empty_object_response"
    by (simp add: empty_object_fetch_def)
  have oo: "ok empty_object_response" "response_json empty_object_response = Inr (JObj [])"
    by (simp_all add: empty_object_response_def)
  have mo: "member (JObj []) (js ''choices'') = None" by simp
  have fc: "empty_choices_fetch ?req = Inr empty_choices_response"
    by (simp add: empty_choices_fetch_def)
  have oc: "ok empty_choices_response"
    "response_json empty_choices_response = Inr (JObj [(js ''choices'', JArr [])])"
    by (simp_all add: empty_choices_response_def)
  have mc: "member (JObj [(js ''choices'', JArr [])]) (js ''choices'') = Some (JArr [])"
    by simp
  have cf: "choice_field (JObj [(js ''choices'', JArr [])]) (js ''message'') (js ''content'') = None"
    by (simp add: choice_field_def)
  have v: "translateText failing_generateContent null_body_fetch vendor_service (js ''hi'') (js ''en'') =
     (Inr TRANSLATION_FAILED,
      [GenerateContent \<lparr>client_apiKey = js ''sk-abc123''\<rparr> GEMINI_FLASH
         (translate_prompt (js ''hi'') (js ''en''))])"
    using translateText_sentinels
      [where this = vendor_service and client = "\<lparr>client_apiKey = js ''sk-abc123''\<rparr>"
         and gen = failing_generateContent and fetch = null_body_fetch
         and input = "js ''hi''" and lang = "js ''en''" and e = "Thrown (js ''quota exceeded'')"]
      ai_vendor_service g
    by blast
  have u: "fst (translateText failing_generateContent null_body_fetch generic_service (js ''hi'') (js ''en''))
     = Inr TRANSLATION_UNAVAILABLE"
    using translateText_sentinels
      [where this = generic_service and gen = failing_generateContent and fetch = null_body_fetch
         and input = "js ''hi''" and lang = "js ''en''" and resp = null_body_response]
      ai_generic_service f n
    by blast
  have o: "fst (translateText failing_generateContent empty_object_fetch generic_service (js ''hi'') (js ''en''))
     = Inr TRANSLATION_UNAVAILABLE"
    using translateText_sentinels
      [where this = generic_service and gen = failing_generateContent and fetch = empty_object_fetch
         and input = "js ''hi''" and lang = "js ''en''" and resp = empty_object_response
         and data = "JObj []"]
      ai_generic_service fo oo mo
    by blast
  have c: "fst (translateText failing_generateContent empty_choices_fetch generic_service (js ''hi'') (js ''en''))
     = Inr TRANSLATION_FAILED"
    using translateText_sentinels
      [where this = generic_service and gen = failing_generateContent and fetch = empty_choices_fetch
         and input = "js ''hi''" and lang = "js ''en''" and resp = empty_choices_response
         and data = "JObj [(js ''choices'', JArr [])]" and choices = "JArr []"]
      ai_generic_service fc oc mc cf
    by blast
  show ?thesis
    using v u o c ai_vendor_service ai_generic_service oo oc mo mc cf by simp
qed

text \<open>
  Claim C10. With a vendor client, \<^verbatim>\<open>translateText\<close> makes one call, \<^verbatim>\<open>generateContent\<close>
  with the model \<^verbatim>\<open>gemini-3-flash-preview\<close>, whatever model the session holds; without one
  it makes one \<^verbatim>\<open>fetch\<close> whose body names the session's model.
\<close>

theorem translateText_models:
  "(ai this = Some client \<longrightarrow>
      snd (translateText gen fetch this input lang) =
        [GenerateContent client (js ''gemini-3-flash-preview'') (translate_prompt input lang)]) \<and>
   (ai this = None \<longrightarrow>
      (\<exists>req. snd (translateText gen fetch this input lang) = [Fetch req] \<and>
             body_model (body req) = currentModel this))"
  by (auto simp: translateText_vendor translateText_generic GEMINI_FLASH_def translate_request_def)

theorem translateText_models_witness:
  "ai vendor_service = Some \<lparr>client_apiKey = js ''sk-abc123''\<rparr> \<and>
   currentModel vendor_service = js ''gpt-4o'' \<and>
   snd (translateText failing_generateContent offline_fetch vendor_service (js ''hi'') (js ''en'')) =
     [GenerateContent \<lparr>client_apiKey = js ''sk-abc123''\<rparr> (js ''gemini-3-flash-preview'')
        (translate_prompt (js ''hi'') (js ''en''))] \<and>
   ai generic_service = None \<and>
   (\<exists>req. snd (translateText failing_generateContent offline_fetch generic_service
                  (js ''hi'') (js ''en'')) = [Fetch req] \<and>
          body_model (body req) = js ''gpt-4o'')"
  using translateText_models
      [where this = vendor_service and client = "\<lparr>client_apiKey = js ''sk-abc123''\<rparr>"
         and gen = failing_generateContent and fetch = offline_fetch
         and input = "js ''hi''" and lang = "js ''en''"]
    translateText_models
      [where this = generic_service and gen = failing_generateContent and fetch = offline_fetch
         and input = "js ''hi''" and lang = "js ''en''"]
  by (simp add: ai_vendor_service ai_generic_service currentModel_vendor_service
        currentModel_generic_service)

section \<open>ProtocolSelector: properties\<close>

lemma VENDOR_DOMAIN_last: "VENDOR_DOMAIN \<noteq> [] \<and> last VENDOR_DOMAIN \<noteq> 0x2F"
  by (simp add: VENDOR_DOMAIN_def js_def)

text \<open>Removing the final slash does not change whether the URL names the vendor's domain.\<close>

lemma js_includes_replace_trailing_slash:
  "js_includes (replace_trailing_slash u) VENDOR_DOMAIN \<longleftrightarrow> js_includes u VENDOR_DOMAIN"
proof (cases "u \<noteq> [] \<and> last u = 0x2F")
  case False
  then show ?thesis by (auto simp: replace_trailing_slash_def)
next
  case True
  then obtain b where u: "u = b @ [0x2F]"
    by (metis append_butlast_last_id)
  have r: "replace_trailing_slash u = b" by (simp add: u replace_trailing_slash_def)
  have "(\<exists>p q. b = p @ VENDOR_DOMAIN @ q) \<longleftrightarrow> (\<exists>p q. b @ [0x2F] = p @ VENDOR_DOMAIN @ q)"
  proof
    assume "\<exists>p q. b = p @ VENDOR_DOMAIN @ q"
    then obtain p q where "b = p @ VENDOR_DOMAIN @ q" by blast
    then have "b @ [0x2F] = p @ VENDOR_DOMAIN @ (q @ [0x2F])" by simp
    then show "\<exists>p q. b @ [0x2F] = p @ VENDOR_DOMAIN @ q" by blast
  next
    assume "\<exists>p q. b @ [0x2F] = p @ VENDOR_DOMAIN @ q"
    then obtain p q where pq: "b @ [0x2F] = p @ VENDOR_DOMAIN @ q" by blast
    show "\<exists>p q. b = p @ VENDOR_DOMAIN @ q"
    proof (cases q rule: rev_cases)
      case Nil
      with pq have "last (b @ [0x2F]) = last (p @ VENDOR_DOMAIN)" by simp
      then have "last VENDOR_DOMAIN = 0x2F" using VENDOR_DOMAIN_last by simp
      then show ?thesis using VENDOR_DOMAIN_last by simp
    next
      case (snoc q' c)
      with pq have "b @ [0x2F] = (p @ VENDOR_DOMAIN @ q') @ [c]" by simp
      then have "b = p @ VENDOR_DOMAIN @ q'" by (simp only: append1_eq_conv)
      then show ?thesis by blast
    qed
  qed
  moreover have "js_includes (replace_trailing_slash u) VENDOR_DOMAIN \<longleftrightarrow>
      (\<exists>p q. b = p @ VENDOR_DOMAIN @ q)"
    by (simp only: r js_includes_iff)
  moreover have "js_includes u VENDOR_DOMAIN \<longleftrightarrow> (\<exists>p q. b @ [0x2F] = p @ VENDOR_DOMAIN @ q)"
    by (simp only: u js_includes_iff)
  ultimately show ?thesis by blast
qed

lemma initChat_vendor:
  assumes "js_includes (apiUrl config) VENDOR_DOMAIN"
  shows "ai (initChat env clock config this) =
           Some \<lparr>client_apiKey = currentApiKey (initChat env clock config this)\<rparr>"
    and "chat (initChat env clock config this) =
           Some \<lparr>chat_client = \<lparr>client_apiKey = currentApiKey (initChat env clock config this)\<rparr>,
                 chat_model = modelName config,
                 chat_systemInstruction = constructSystemInstruction clock config,
                 chat_temperature = temperature config\<rparr>"
  using assms by (simp_all add: initChat_def Let_def js_includes_replace_trailing_slash)

lemma initChat_generic:
  assumes "\<not> js_includes (apiUrl config) VENDOR_DOMAIN"
  shows "ai (initChat env clock config this) = None"
    and "chat (initChat env clock config this) = None"
  using assms by (simp_all add: initChat_def Let_def js_includes_replace_trailing_slash)

lemma initChat_transport_independent:
  "ai (initChat env clock config that) = ai (initChat env clock config this) \<and>
   chat (initChat env clock config that) = chat (initChat env clock config this)"
  by (simp add: initChat_def Let_def)

lemma initChat_fields:
  "currentBaseUrl (initChat env clock config this) = replace_trailing_slash (apiUrl config) \<and>
   currentModel (initChat env clock config this) = modelName config \<and>
   currentTemperature (initChat env clock config this) = temperature config \<and>
   currentSystemInstruction (initChat env clock config this) =
     constructSystemInstruction clock config"
  by (simp add: initChat_def Let_def)

lemma state_after_all_no_init:
  "list_all (\<lambda>op. \<not> is_InitChat op) ops \<Longrightarrow> state_after_all env clock this ops = this"
proof (induction ops arbitrary: this)
  case Nil
  then show ?case by (simp add: state_after_all_def)
next
  case (Cons op ops)
  then show ?case by (cases op) (simp_all add: state_after_all_def)
qed

lemma state_after_all_append:
  "state_after_all env clock this (xs @ ys) =
     state_after_all env clock (state_after_all env clock this xs) ys"
  by (simp add: state_after_all_def)

lemma sendMessageStream_vendor_calls:
  "chat this = Some session \<Longrightarrow>
   snd (sendMessageStream p send fetch this message history) =
     [ChatSendMessageStream session message]"
  by (simp add: sendMessageStream_def)

text \<open>
  Claim C9. An initialisation tests the configured base URL for the vendor's domain. When
  the URL names it, a vendor client and a chat session (with the configured model, the
  compiled instruction and the temperature) are created and a streaming call goes to
  that session; when it does not, no client and no session exist and every streaming and
  translation call is one \<^verbatim>\<open>fetch\<close> on the generic path. The choice does not depend on the
  state before the call, and the state an initialisation leaves is the state after any
  run of streaming and translation calls that follows it: only the next initialisation
  changes the transport.
\<close>

theorem transport_selection:
  "(js_includes (apiUrl config) VENDOR_DOMAIN \<longrightarrow>
      ai (initChat env clock config this) =
        Some \<lparr>client_apiKey = currentApiKey (initChat env clock config this)\<rparr> \<and>
      chat (initChat env clock config this) =
        Some \<lparr>chat_client = \<lparr>client_apiKey = currentApiKey (initChat env clock config this)\<rparr>,
              chat_model = modelName config,
              chat_systemInstruction = constructSystemInstruction clock config,
              chat_temperature = temperature config\<rparr> \<and>
      (\<exists>session. chat (initChat env clock config this) = Some session \<and>
         snd (sendMessageStream p send fetch (initChat env clock config this) message history) =
           [ChatSendMessageStream session message])) \<and>
   (\<not> js_includes (apiUrl config) VENDOR_DOMAIN \<longrightarrow>
      ai (initChat env clock config this) = None \<and>
      chat (initChat env clock config this) = None \<and>
      snd (sendMessageStream p send fetch (initChat env clock config this) message history) =
        [Fetch (stream_request (initChat env clock config this) message history)] \<and>
      snd (translateText gen fetch (initChat env clock config this) input lang) =
        [Fetch (translate_request (initChat env clock config this)
                  (translate_prompt input lang))]) \<and>
   (list_all (\<lambda>op. \<not> is_InitChat op) ops \<longrightarrow>
      state_after_all env clock this (before @ [InitChat config] @ ops) =
        initChat env clock config (state_after_all env clock this before)) \<and>
   ai (initChat env clock config that) = ai (initChat env clock config this) \<and>
   chat (initChat env clock config that) = chat (initChat env clock config this)"
proof -
  have v: "ai (initChat env clock config this) =
        Some \<lparr>client_apiKey = currentApiKey (initChat env clock config this)\<rparr> \<and>
      chat (initChat env clock config this) =
        Some \<lparr>chat_client = \<lparr>client_apiKey = currentApiKey (initChat env clock config this)\<rparr>,
              chat_model = modelName config,
              chat_systemInstruction = constructSystemInstruction clock config,
              chat_temperature = temperature config\<rparr> \<and>
      (\<exists>session. chat (initChat env clock config this) = Some session \<and>
         snd (sendMessageStream p send fetch (initChat env clock config this) message history) =
           [ChatSendMessageStream session message])"
    if "js_includes (apiUrl config) VENDOR_DOMAIN"
    using initChat_vendor[OF that, of env clock this]
    by (simp add: sendMessageStream_vendor_calls)
  have g: "ai (initChat env clock config this) = None \<and>
      chat (initChat env clock config this) = None \<and>
      snd (sendMessageStream p send fetch (initChat env clock config this) message history) =
        [Fetch (stream_request (initChat env clock config this) message history)] \<and>
      snd (translateText gen fetch (initChat env clock config this) input lang) =
        [Fetch (translate_request (initChat env clock config this)
                  (translate_prompt input lang))]"
    if "\<not> js_includes (apiUrl config) VENDOR_DOMAIN"
    using initChat_generic[OF that, of env clock this]
    by (simp add: sendMessageStream_generic_calls translateText_generic_calls)
  have f: "state_after_all env clock this (before @ [InitChat config] @ ops) =
        initChat env clock config (state_after_all env clock this before)"
    if "list_all (\<lambda>op. \<not> is_InitChat op) ops"
    using state_after_all_no_init[OF that]
    by (simp add: state_after_all_append) (simp add: state_after_all_def)
  show ?thesis
    using v g f initChat_transport_independent[of env clock config that this] by blast
qed

lemma vendor_config_matches: "js_includes (apiUrl vendor_config) VENDOR_DOMAIN"
  by (simp add: vendor_config_def generic_config_def VENDOR_DOMAIN_def js_def)

lemma generic_config_no_match: "\<not> js_includes (apiUrl generic_config) VENDOR_DOMAIN"
  by (simp add: generic_config_def VENDOR_DOMAIN_def js_def)

theorem transport_selection_witness:
  "js_includes (apiUrl vendor_config) VENDOR_DOMAIN \<and>
   (\<exists>session. chat vendor_service = Some session \<and>
      snd (sendMessageStream no_parse failing_chat_send offline_fetch vendor_service
             (js ''hi'') []) = [ChatSendMessageStream session (js ''hi'')]) \<and>
   \<not> js_includes (apiUrl generic_config) VENDOR_DOMAIN \<and>
   ai generic_service = None \<and> chat generic_service = None \<and>
   snd (sendMessageStream no_parse failing_chat_send offline_fetch generic_service (js ''hi'') [])
     = [Fetch (stream_request generic_service (js ''hi'') [])] \<and>
   list_all (\<lambda>op. \<not> is_InitChat op)
     [SendMessageStream (js ''hi'') [], TranslateText (js ''hi'') (js ''en'')] \<and>
   state_after_all None sample_clock new_AIService
     ([] @ [InitChat vendor_config] @
      [SendMessageStream (js ''hi'') [], TranslateText (js ''hi'') (js ''en'')]) = vendor_service"
proof -
  have l: "list_all (\<lambda>op. \<not> is_InitChat op)
     [SendMessageStream (js ''hi'') [], TranslateText (js ''hi'') (js ''en'')]"
    by simp
  have e: "state_after_all None sample_clock new_AIService [] = new_AIService"
    by (simp add: state_after_all_def)
  note vendor = transport_selection
      [where config = vendor_config and env = None and clock = sample_clock
         and this = new_AIService and p = no_parse and send = failing_chat_send
         and fetch = offline_fetch and message = "js ''hi''" and history = "[]"
         and before = "[]"
         and ops = "[SendMessageStream (js ''hi'') [], TranslateText (js ''hi'') (js ''en'')]",
       folded vendor_service_def]
  note generic = transport_selection
      [where config = generic_config and env = None and clock = sample_clock
         and this = new_AIService and p = no_parse and send = failing_chat_send
         and fetch = offline_fetch and message = "js ''hi''" and history = "[]",
       folded generic_service_def]
  have 1: "\<exists>session. chat vendor_service = Some session \<and>
      snd (sendMessageStream no_parse failing_chat_send offline_fetch vendor_service
             (js ''hi'') []) = [ChatSendMessageStream session (js ''hi'')]"
    using vendor vendor_config_matches by blast
  have 2: "ai generic_service = None \<and> chat generic_service = None \<and>
   snd (sendMessageStream no_parse failing_chat_send offline_fetch generic_service (js ''hi'') [])
     = [Fetch (stream_request generic_service (js ''hi'') [])]"
    using generic generic_config_no_match by blast
  have 3: "state_after_all None sample_clock new_AIService
     ([] @ [InitChat vendor_config] @
      [SendMessageStream (js ''hi'') [], TranslateText (js ''hi'') (js ''en'')]) =
     initChat None sample_clock vendor_config (state_after_all None sample_clock new_AIService [])"
    using vendor l by blast
  show ?thesis
    using 1 2 3 vendor_config_matches generic_config_no_match l
    by (simp only: e vendor_service_def) simp
qed

section \<open>sendMessageStream: a response that is not ok\<close>

lemma sendMessageStream_not_ok:
  "chat this = None \<Longrightarrow> fetch (stream_request this message history) = Inr resp \<Longrightarrow> \<not> ok resp \<Longrightarrow>
   sendMessageStream p send fetch this message history =
     (([], Some (response_error resp)), [Fetch (stream_request this message history)])"
  by (simp add: sendMessageStream_def Let_def)

lemma response_error_not_null:
  "response_json resp \<noteq> Inr JNull \<Longrightarrow>
   response_error resp =
     (case Option.bind
             (member (case response_json resp of Inl e \<Rightarrow> JObj [] | Inr v \<Rightarrow> v) (js ''error''))
             (\<lambda>err. member err (js ''message'')) of
        None \<Rightarrow> Error (JStr (status_message resp))
      | Some m \<Rightarrow> if truthy m then Error m else Error (JStr (status_message resp)))"
  by (cases "response_json resp"; cases "projr (response_json resp)")
     (simp_all add: response_error_def opt_member_bind)

lemma chat_generic_service: "chat generic_service = None"
  by (simp add: generic_service_def initChat_generic[OF generic_config_no_match])

text \<open>
  Claim C8 at a response with status 500 whose body is the JSON text \<^verbatim>\<open>null\<close>: the body
  parses, it carries no error message, and the call throws a TypeError, not the error
  with the status-coded message. For every other body \<open>response_error_not_null\<close> gives
  the error the claim states; the call makes one \<^verbatim>\<open>fetch\<close> and no other.
\<close>

theorem null_error_body_throws_TypeError:
  "chat generic_service = None \<and>
   null_body_fetch (stream_request generic_service (js ''hi'') []) = Inr null_body_response \<and>
   \<not> ok null_body_response \<and> status null_body_response = 500 \<and>
   response_json null_body_response = Inr JNull \<and>
   sendMessageStream no_parse failing_chat_send null_body_fetch generic_service (js ''hi'') [] =
     (([], Some TypeError), [Fetch (stream_request generic_service (js ''hi'') [])]) \<and>
   status_message null_body_response = REQUEST_FAILED @ js ''500'' \<and>
   TypeError \<noteq> Error (JStr (status_message null_body_response))"
proof -
  have f: "null_body_fetch (stream_request generic_service (js ''hi'') []) = Inr null_body_response"
    by (simp add: null_body_fetch_def)
  have n: "\<not> ok null_body_response" by (simp add: null_body_response_def)
  have e: "response_error null_body_response = TypeError"
    by (simp add: response_error_def null_body_response_def)
  have s: "status_message null_body_response = REQUEST_FAILED @ js ''500''"
    by (simp add: status_message_def null_body_response_def show_nat.simps js_def)
  show ?thesis
    using sendMessageStream_not_ok
        [where this = generic_service and fetch = null_body_fetch and message = "js ''hi''"
           and history = "[]" and resp = null_body_response and p = no_parse
           and send = failing_chat_send, OF chat_generic_service f n]
      chat_generic_service f n e s
    by (simp add: null_body_response_def)
qed

section \<open>PromptBuilder: properties\<close>

lemma trim_eq_trim_end: "trim s = trim_end (dropWhile is_white_space s)"
  by (simp add: trim_def trim_end_def)

lemma trim_end_append:
  assumes "h \<noteq> []" and "\<not> is_white_space (last h)"
  shows "trim_end (h @ r) = h @ trim_end r"
proof -
  have hd: "dropWhile is_white_space (rev h) = rev h"
    using assms by (cases h rule: rev_cases) simp_all
  show ?thesis
  proof (cases "\<forall>x \<in> set (rev r). is_white_space x")
    case True
    then have "dropWhile is_white_space (rev r @ rev h) = dropWhile is_white_space (rev h)"
      by (intro dropWhile_append2) simp
    moreover have "dropWhile is_white_space (rev r) = []" using True by simp
    ultimately show ?thesis by (simp add: trim_end_def hd)
  next
    case False
    then obtain x where "x \<in> set (rev r)" "\<not> is_white_space x" by blast
    then have "dropWhile is_white_space (rev r @ rev h) = dropWhile is_white_space (rev r) @ rev h"
      by (rule dropWhile_append1)
    then show ?thesis by (simp add: trim_end_def)
  qed
qed

lemma dropWhile_hd: "c \<noteq> [] \<Longrightarrow> \<not> P (hd c) \<Longrightarrow> dropWhile P (c @ r) = c @ r"
  by (cases c) simp_all

lemma line_feed_white: "is_white_space 0x0A"
  by (simp add: is_white_space_def)

lemma trim_framed:
  assumes "c \<noteq> []" and "\<not> is_white_space (hd c)" and "\<not> is_white_space (last c)"
  shows "trim ([0x0A] @ c @ [0x0A]) = c"
proof -
  have "dropWhile is_white_space ([0x0A] @ c @ [0x0A]) = c @ [0x0A]"
    using assms(1,2) by (cases c) (simp_all add: line_feed_white)
  moreover have "trim_end (c @ [0x0A]) = c"
    using trim_end_append[OF assms(1,3), of "[0x0A]"] by (simp add: trim_end_def line_feed_white)
  ultimately show ?thesis by (simp add: trim_eq_trim_end)
qed

lemma set_trim: "set (trim s) \<subseteq> set s"
proof -
  have "set (dropWhile is_white_space (rev (dropWhile is_white_space s))) \<subseteq>
        set (rev (dropWhile is_white_space s))"
    by (meson set_dropWhileD subsetI)
  also have "\<dots> \<subseteq> set s" by (auto dest: set_dropWhileD)
  finally show ?thesis by (simp add: trim_def)
qed

lemma js_includes_set: "js_includes s t \<Longrightarrow> set t \<subseteq> set s"
  by (auto simp: js_includes_iff)

lemma positions_distinct:
  "js ''front'' \<noteq> js ''middle''" "js ''front'' \<noteq> js ''back''" "js ''middle'' \<noteq> js ''back''"
  "js ''front'' \<noteq> []" "js ''middle'' \<noteq> []" "js ''back'' \<noteq> []"
  by (simp_all add: js_def)

lemma groups_partition:
  "list_all valid_position entries \<Longrightarrow>
   mset (front_entries entries @ middle_entries entries @ back_entries entries) = mset entries"
  using positions_distinct
  by (induction entries)
     (auto simp: front_entries_def middle_entries_def back_entries_def valid_position_def)

lemma groups_cover:
  "list_all valid_position entries \<Longrightarrow> e \<in> set entries \<Longrightarrow>
   e \<in> set (front_entries entries) \<or> e \<in> set (middle_entries entries) \<or>
   e \<in> set (back_entries entries)"
  by (auto simp: front_entries_def middle_entries_def back_entries_def valid_position_def
        list_all_iff)

lemma join_map_contains:
  "e \<in> set G \<Longrightarrow> \<exists>p q. join (map f G) sep = p @ f e @ q"
proof (induction G)
  case Nil
  then show ?case by simp
next
  case (Cons x xs)
  show ?case
  proof (cases "xs = []")
    case True
    with Cons.prems have "join (map f (x # xs)) sep = [] @ f e @ []" by simp
    then show ?thesis by blast
  next
    case False
    then have j: "join (map f (x # xs)) sep = f x @ sep @ join (map f xs) sep"
      by (simp add: join_Cons)
    show ?thesis
    proof (cases "e = x")
      case True
      with j have "join (map f (x # xs)) sep = [] @ f e @ (sep @ join (map f xs) sep)" by simp
      then show ?thesis by blast
    next
      case ne: False
      with Cons.prems have "e \<in> set xs" by simp
      with Cons.IH obtain p q where "join (map f xs) sep = p @ f e @ q" by blast
      with j have "join (map f (x # xs)) sep = (f x @ sep @ p) @ f e @ q" by simp
      then show ?thesis by blast
    qed
  qed
qed

lemma formatEntries_contains:
  "e \<in> set G \<Longrightarrow> \<exists>p q. formatEntries G = p @ formatEntry e @ q"
  unfolding formatEntries_def by (rule join_map_contains)

lemma world_header_ends:
  "world_header \<noteq> []" "\<not> is_white_space (hd world_header)" "\<not> is_white_space (last world_header)"
  by (simp_all add: world_header_def js_def is_white_space_def)

text \<open>The world block: the header, then the three groups, white space at the end removed.\<close>

lemma worldContext_eq:
  "worldContext entries =
     world_header @
     trim_end ([0x0A] @ formatEntries (front_entries entries) @ [0x0A] @
               formatEntries (middle_entries entries) @ [0x0A] @
               formatEntries (back_entries entries) @ [0x0A])"
proof -
  have "dropWhile is_white_space (worldContext_template entries) =
        world_header @ [0x0A] @ formatEntries (front_entries entries) @ [0x0A] @
               formatEntries (middle_entries entries) @ [0x0A] @
               formatEntries (back_entries entries) @ [0x0A]"
    using dropWhile_hd[where P = is_white_space and c = world_header, OF world_header_ends(1,2)]
    by (simp add: worldContext_template_def line_feed_white)
  then show ?thesis
    using trim_end_append[OF world_header_ends(1,3)]
    by (simp add: worldContext_def trim_eq_trim_end)
qed

lemma instruction_1_start:
  "instruction_1 = [0x0A] @ tl instruction_1 \<and> tl instruction_1 \<noteq> [] \<and>
   \<not> is_white_space (hd (tl instruction_1))"
  by (simp add: instruction_1_def js_def is_white_space_def)

lemma instruction_8_end:
  "instruction_8 = butlast instruction_8 @ [0x0A] \<and> butlast instruction_8 \<noteq> [] \<and>
   \<not> is_white_space (last (butlast instruction_8))"
  by (simp add: instruction_8_def js_def is_white_space_def)

text \<open>The outer trim removes one line feed at each end of the template.\<close>

lemma constructSystemInstruction_eq:
  "constructSystemInstruction clock config =
     instruction_before config @ worldContext (worldEntries config) @
     instruction_after clock config"
proof -
  let ?c = "instruction_before config @ worldContext (worldEntries config) @
     instruction_after clock config"
  have c: "?c \<noteq> []" "\<not> is_white_space (hd ?c)" "\<not> is_white_space (last ?c)"
    using instruction_1_start instruction_8_end
    by (simp_all add: instruction_before_def instruction_after_def)
  have "constructSystemInstruction clock config = trim ([0x0A] @ ?c @ [0x0A])"
    unfolding constructSystemInstruction_def instruction_before_def instruction_after_def
    by (subst instruction_1_start[THEN conjunct1], subst instruction_8_end[THEN conjunct1]) simp
  then show ?thesis using trim_framed[OF c] by simp
qed


lemma tab_not_before: "0x09 \<notin> set (instruction_before tab_config)"
  by (simp add: instruction_before_def tab_config_def generic_config_def instruction_1_def
        instruction_2_def instruction_3_def instruction_4_def default_ai_persona_def
        default_user_persona_def js_def)

lemma tab_not_outputControl: "0x09 \<notin> set (outputControl sample_clock tab_config)"
proof -
  have "0x09 \<notin> set (output_control_1 @ number_text sample_clock (minResponseCount tab_config) @
           output_control_2 @ number_text sample_clock (maxResponseCount tab_config) @
           output_control_3 @ number_text sample_clock (maxCharacterCount tab_config) @
           output_control_4)"
    by (simp add: tab_config_def generic_config_def output_control_1_def output_control_2_def
          output_control_3_def output_control_4_def number_text_def show_nat.simps js_def)
  then show ?thesis
    using set_trim unfolding outputControl_def by blast
qed

lemma tab_not_after: "0x09 \<notin> set (instruction_after sample_clock tab_config)"
  using tab_not_outputControl
  by (simp add: instruction_after_def timeContext_def getLanguagePrompt_def tab_config_def
        generic_config_def instruction_5_def instruction_6_def instruction_7_def
        instruction_8_def lang_prompt_en_def js_def)

lemma worldContext_tab:
  "worldContext [tab_entry] = world_header @ [0x0A, 0x0A, 0x0A] @ entry_open @ js ''t'' @ entry_sep @ js ''c''"
  by (simp add: worldContext_def worldContext_template_def front_entries_def middle_entries_def
        back_entries_def formatEntries_def formatEntry_def tab_entry_def trim_def
        is_white_space_def world_header_def entry_open_def entry_sep_def js_def)

lemma tab_not_worldContext: "0x09 \<notin> set (worldContext [tab_entry])"
  by (simp add: worldContext_tab world_header_def entry_open_def entry_sep_def js_def)

text \<open>
  Claim C7, as stated, fails: the \<^verbatim>\<open>.trim()\<close> of the world block removes the white space
  that ends its last line. For a single entry in the back group whose content is
  \<^verbatim>\<open>c\<close> followed by a tab, the formatted line does not occur in the instruction.
\<close>

theorem trailing_white_space_counterexample:
  "list_all valid_position (worldEntries tab_config) \<and>
   tab_entry \<in> set (worldEntries tab_config) \<and>
   formatEntry tab_entry = entry_open @ js ''t'' @ entry_sep @ js ''c'' @ [0x09] \<and>
   \<not> js_includes (constructSystemInstruction sample_clock tab_config) (formatEntry tab_entry)"
proof -
  have w: "worldEntries tab_config = [tab_entry]" by (simp add: tab_config_def)
  have v: "valid_position tab_entry" by (simp add: valid_position_def tab_entry_def)
  have f: "formatEntry tab_entry = entry_open @ js ''t'' @ entry_sep @ js ''c'' @ [0x09]"
    by (simp add: formatEntry_def tab_entry_def)
  have "0x09 \<notin> set (constructSystemInstruction sample_clock tab_config)"
    using tab_not_before tab_not_after tab_not_worldContext
    by (simp add: constructSystemInstruction_eq w)
  moreover have "0x09 \<in> set (formatEntry tab_entry)" by (simp add: f)
  ultimately have "\<not> js_includes (constructSystemInstruction sample_clock tab_config)
                      (formatEntry tab_entry)"
    using js_includes_set by blast
  then show ?thesis using w v f by simp
qed

lemma formatEntry_entry_line: "formatEntry e = entry_line e"
  by (simp add: formatEntry_def entry_line_def entry_open_def entry_sep_def js_def)

lemma join_lines_text: "join ls [0x0A] = lines_text ls"
  by (induction ls "[0x0A :: 16 word]" rule: join.induct) simp_all

lemma formatEntries_lines_text: "formatEntries G = lines_text (map entry_line G)"
  by (simp add: formatEntries_def join_lines_text formatEntry_entry_line[abs_def])

lemma front_entries_group:
  "front_entries entries = filter (\<lambda>e. group_of e = js ''front'') entries"
  unfolding front_entries_def
  by (rule filter_cong) (auto simp: group_of_def js_def split: option.splits)

lemma back_entries_group:
  "back_entries entries = filter (\<lambda>e. group_of e = js ''back'') entries"
  unfolding back_entries_def
  by (rule filter_cong) (auto simp: group_of_def js_def split: option.splits)

lemma middle_entries_group:
  "list_all valid_position entries \<Longrightarrow>
   middle_entries entries = filter (\<lambda>e. group_of e = js ''middle'') entries"
  unfolding middle_entries_def
  by (rule filter_cong)
     (auto simp: group_of_def valid_position_def list_all_iff js_def split: option.splits)

lemma worldContext_groups:
  assumes "list_all valid_position entries"
  shows "worldContext entries =
     world_header @
     trim_end ([0x0A] @ group_text (js ''front'') entries @ [0x0A] @
               group_text (js ''middle'') entries @ [0x0A] @
               group_text (js ''back'') entries @ [0x0A])"
  unfolding worldContext_eq group_text_def formatEntries_lines_text
    front_entries_group back_entries_group middle_entries_group[OF assms] ..

lemma groups_partition_spec:
  assumes "list_all valid_position entries"
  shows "mset (filter (\<lambda>e. group_of e = js ''front'') entries @
           filter (\<lambda>e. group_of e = js ''middle'') entries @
           filter (\<lambda>e. group_of e = js ''back'') entries) = mset entries"
  using groups_partition[OF assms]
  unfolding front_entries_group back_entries_group middle_entries_group[OF assms] .

lemma worldContext_contains_line:
  assumes v: "list_all valid_position entries" and e: "e \<in> set entries"
    and w: "\<not> is_white_space (last (entry_line e))"
  shows "\<exists>p q. worldContext entries = p @ entry_line e @ q"
proof -
  let ?F = "formatEntries (front_entries entries)"
  let ?M = "formatEntries (middle_entries entries)"
  let ?B = "formatEntries (back_entries entries)"
  have "\<exists>p q. [0x0A] @ ?F @ [0x0A] @ ?M @ [0x0A] @ ?B @ [0x0A] = p @ formatEntry e @ q"
  proof -
    consider "e \<in> set (front_entries entries)" | "e \<in> set (middle_entries entries)"
      | "e \<in> set (back_entries entries)"
      using groups_cover[OF v e] by blast
    then show ?thesis
    proof cases
      case 1
      then obtain p q where "?F = p @ formatEntry e @ q" using formatEntries_contains by blast
      then have "[0x0A] @ ?F @ [0x0A] @ ?M @ [0x0A] @ ?B @ [0x0A] =
          ([0x0A] @ p) @ formatEntry e @ (q @ [0x0A] @ ?M @ [0x0A] @ ?B @ [0x0A])" by simp
      then show ?thesis by blast
    next
      case 2
      then obtain p q where "?M = p @ formatEntry e @ q" using formatEntries_contains by blast
      then have "[0x0A] @ ?F @ [0x0A] @ ?M @ [0x0A] @ ?B @ [0x0A] =
          ([0x0A] @ ?F @ [0x0A] @ p) @ formatEntry e @ (q @ [0x0A] @ ?B @ [0x0A])" by simp
      then show ?thesis by blast
    next
      case 3
      then obtain p q where "?B = p @ formatEntry e @ q" using formatEntries_contains by blast
      then have "[0x0A] @ ?F @ [0x0A] @ ?M @ [0x0A] @ ?B @ [0x0A] =
          ([0x0A] @ ?F @ [0x0A] @ ?M @ [0x0A] @ p) @ formatEntry e @ (q @ [0x0A])" by simp
      then show ?thesis by blast
    qed
  qed
  then obtain p q where pq:
    "[0x0A] @ ?F @ [0x0A] @ ?M @ [0x0A] @ ?B @ [0x0A] = p @ entry_line e @ q"
    unfolding formatEntry_entry_line by blast
  have ne: "entry_line e \<noteq> []" by (simp add: entry_line_def)
  have "trim_end ((p @ entry_line e) @ q) = (p @ entry_line e) @ trim_end q"
    using ne w by (intro trim_end_append) simp_all
  then have "worldContext entries = (world_header @ p) @ entry_line e @ trim_end q"
    using pq by (simp add: worldContext_eq)
  then show ?thesis by blast
qed

text \<open>
  Claim C7, amended. For entries whose position is front, middle, back or absent: the
  instruction is a text that does not depend on the entries, then the world block, then
  another such text. The world block is the header, a line feed, the text of the front
  group, a line feed, the text of the middle group (the entries with position middle or
  none), a line feed, the text of the back group, with the white space at the end of the
  block removed; the text of a group is the formatted lines of its entries in input
  order, separated by line feeds, and the empty string for an empty group. Every entry
  lies in exactly one of the three groups. So the formatted line of every entry occurs in
  the instruction when that line does not end in white space; a line that ends in white
  space (an empty content, or a content ending in white space) may lose it.
\<close>

theorem world_entries_in_instruction:
  "list_all valid_position (worldEntries config) \<longrightarrow>
     constructSystemInstruction rt config =
       instruction_before config @ worldContext (worldEntries config) @
       instruction_after rt config \<and>
     instruction_before (config\<lparr>worldEntries := other\<rparr>) = instruction_before config \<and>
     instruction_after rt (config\<lparr>worldEntries := other\<rparr>) = instruction_after rt config \<and>
     worldContext (worldEntries config) =
       world_header @
       trim_end ([0x0A] @ group_text (js ''front'') (worldEntries config) @ [0x0A] @
                 group_text (js ''middle'') (worldEntries config) @ [0x0A] @
                 group_text (js ''back'') (worldEntries config) @ [0x0A]) \<and>
     mset (filter (\<lambda>e. group_of e = js ''front'') (worldEntries config) @
           filter (\<lambda>e. group_of e = js ''middle'') (worldEntries config) @
           filter (\<lambda>e. group_of e = js ''back'') (worldEntries config)) =
       mset (worldEntries config) \<and>
     group_text g [] = [] \<and>
     (e \<in> set (worldEntries config) \<and> \<not> is_white_space (last (entry_line e)) \<longrightarrow>
        js_includes (constructSystemInstruction rt config) (entry_line e))"
proof
  assume v: "list_all valid_position (worldEntries config)"
  have 1: "instruction_before (config\<lparr>worldEntries := other\<rparr>) = instruction_before config \<and>
     instruction_after rt (config\<lparr>worldEntries := other\<rparr>) = instruction_after rt config"
    by (simp add: instruction_before_def instruction_after_def timeContext_def outputControl_def)
  have 2: "group_text g [] = []" by (simp add: group_text_def)
  have 3: "js_includes (constructSystemInstruction rt config) (entry_line e)"
    if h: "e \<in> set (worldEntries config)" "\<not> is_white_space (last (entry_line e))"
  proof -
    obtain p q where "worldContext (worldEntries config) = p @ entry_line e @ q"
      using worldContext_contains_line[OF v h] by blast
    then have "constructSystemInstruction rt config =
        (instruction_before config @ p) @ entry_line e @ (q @ instruction_after rt config)"
      by (simp add: constructSystemInstruction_eq)
    then show ?thesis unfolding js_includes_iff by blast
  qed
  show "constructSystemInstruction rt config =
       instruction_before config @ worldContext (worldEntries config) @
       instruction_after rt config \<and>
     instruction_before (config\<lparr>worldEntries := other\<rparr>) = instruction_before config \<and>
     instruction_after rt (config\<lparr>worldEntries := other\<rparr>) = instruction_after rt config \<and>
     worldContext (worldEntries config) =
       world_header @
       trim_end ([0x0A] @ group_text (js ''front'') (worldEntries config) @ [0x0A] @
                 group_text (js ''middle'') (worldEntries config) @ [0x0A] @
                 group_text (js ''back'') (worldEntries config) @ [0x0A]) \<and>
     mset (filter (\<lambda>e. group_of e = js ''front'') (worldEntries config) @
           filter (\<lambda>e. group_of e = js ''middle'') (worldEntries config) @
           filter (\<lambda>e. group_of e = js ''back'') (worldEntries config)) =
       mset (worldEntries config) \<and>
     group_text g [] = [] \<and>
     (e \<in> set (worldEntries config) \<and> \<not> is_white_space (last (entry_line e)) \<longrightarrow>
        js_includes (constructSystemInstruction rt config) (entry_line e))"
    using 1 2 3 constructSystemInstruction_eq[of rt config]
      worldContext_groups[OF v] groups_partition_spec[OF v]
    by blast
qed

theorem world_entries_in_instruction_witness:
  "list_all valid_position (worldEntries generic_config) \<and>
   lore_entry \<in> set (worldEntries generic_config) \<and>
   entry_line lore_entry = [0x3010] @ js ''Moon'' @ [0x3011] @ js '': two moons'' \<and>
   \<not> is_white_space (last (entry_line lore_entry)) \<and>
   js_includes (constructSystemInstruction sample_clock generic_config) (entry_line lore_entry) \<and>
   worldContext (worldEntries generic_config) =
     world_header @ [0x0A] @
     [0x3010] @ js ''Gate'' @ [0x3011] @ js '': iron'' @ [0x0A] @
     [0x3010] @ js ''Rule'' @ [0x3011] @ js '': no magic'' @ [0x0A] @
     [0x3010] @ js ''Moon'' @ [0x3011] @ js '': two moons''"
proof -
  have v: "list_all valid_position (worldEntries generic_config)"
    by (simp add: generic_config_def valid_position_def lore_entry_def rule_entry_def
          gate_entry_def)
  have m: "lore_entry \<in> set (worldEntries generic_config)" by (simp add: generic_config_def)
  have l: "entry_line lore_entry = [0x3010] @ js ''Moon'' @ [0x3011] @ js '': two moons''"
    by (simp add: entry_line_def lore_entry_def js_def)
  have c: "\<not> is_white_space (last (entry_line lore_entry))"
    by (simp add: l js_def is_white_space_def)
  note t = world_entries_in_instruction
      [where config = generic_config and rt = sample_clock and e = lore_entry]
  have i: "js_includes (constructSystemInstruction sample_clock generic_config)
             (entry_line lore_entry)"
    using t v m c by blast
  have w: "worldContext (worldEntries generic_config) =
       world_header @
       trim_end ([0x0A] @ group_text (js ''front'') (worldEntries generic_config) @ [0x0A] @
                 group_text (js ''middle'') (worldEntries generic_config) @ [0x0A] @
                 group_text (js ''back'') (worldEntries generic_config) @ [0x0A])"
    using t v by blast
  have "trim_end ([0x0A] @ group_text (js ''front'') (worldEntries generic_config) @ [0x0A] @
                 group_text (js ''middle'') (worldEntries generic_config) @ [0x0A] @
                 group_text (js ''back'') (worldEntries generic_config) @ [0x0A]) =
     [0x0A] @
     [0x3010] @ js ''Gate'' @ [0x3011] @ js '': iron'' @ [0x0A] @
     [0x3010] @ js ''Rule'' @ [0x3011] @ js '': no magic'' @ [0x0A] @
     [0x3010] @ js ''Moon'' @ [0x3011] @ js '': two moons''"
    by (simp add: generic_config_def group_text_def group_of_def entry_line_def lore_entry_def
          rule_entry_def gate_entry_def trim_end_def is_white_space_def js_def)
  with w have "worldContext (worldEntries generic_config) =
     world_header @ [0x0A] @
     [0x3010] @ js ''Gate'' @ [0x3011] @ js '': iron'' @ [0x0A] @
     [0x3010] @ js ''Rule'' @ [0x3011] @ js '': no magic'' @ [0x0A] @
     [0x3010] @ js ''Moon'' @ [0x3011] @ js '': two moons''"
    by simp
  then show ?thesis using v m l c i by blast
qed

end
